theory Spec2Isabelle
  imports Main "HOL-Library.Word"
begin

section \<open>Tokens, expressions and types\<close>

text \<open>
  The token, expression, register, scope and assembler-core packages are not among the
  sources; their data is modelled after the data model of the specification and after
  the way the call, for-loop and build code uses it.
\<close>

datatype kind =
  Identifier | Number | Text | Operator | Keyword | Separator
  | GroupStart | GroupEnd | BlockStart | BlockEnd | RangeKind | NewLine | Comment

datatype token = MkToken (Kind: kind) (TokenText: string)

text \<open>A type is identified by the name its \<open>String\<close> method prints; equality of
  names stands for the identity of type objects.\<close>

datatype spec_type = Type (TypeString: string)

datatype expression =
  Expression (Token: token) (Children: "expression list")
    (Register: "string option") (ExprType: "spec_type option")

text \<open>Modelled from the spec: a leaf carries a single token and has no children.\<close>

definition IsLeaf :: "expression \<Rightarrow> bool" where
  "IsLeaf e = (Children e = [])"

section \<open>Variables, register users, functions\<close>

record variable =
  VarName :: string
  VarType :: spec_type
  VarRegister :: "string option"
  AliveUntil :: int

text \<open>A register has at most one user: a variable binding or a transient expression.
  A \<open>User().(*Variable)\<close> type assertion succeeds on the first and fails on the second.\<close>

datatype user = UserVariable variable | UserExpression expression

datatype operand =
  NoOperand
  | Register1 string
  | Register2 string string
  | RegisterNumber string "64 word"
  | RegisterAddress string "32 word"
  | MemoryNumber "string option" "8 word" "8 word" "64 word"
  | LabelOperand string

datatype instruction = Instruction string operand | Label string

text \<open>The counters \<open>SideEffects\<close> and \<open>CallCount\<close> start at zero and are only
  ever incremented by one, so they are natural numbers here. \<open>UsedRegisterNames\<close> is
  the clobber set in the order in which the caller's \<open>range\<close> loop visits it.\<close>

record func =
  Name :: string
  Parameters :: "variable list"
  ReturnTypes :: "spec_type list"
  NoParameterCheck :: bool
  SideEffects :: nat
  CallCount :: nat
  UsedRegisterNames :: "string list"
  CanInline :: bool
  FuncAssembler :: "instruction list"

text \<open>Modelled from the spec: the list of return types has no or one element.\<close>

definition HasReturnValue :: "func \<Rightarrow> bool" where
  "HasReturnValue f = (ReturnTypes f \<noteq> [])"

section \<open>Errors and panics\<close>

datatype error =
  MissingRange | MissingRangeStart | MissingRangeLimit
  | ExceededMaxVariables
  | MainMissing
  | ParameterCount string nat nat
  | InvalidType string string string
  | TextParameterRequired string string
  | UnknownFunction string string
  | UnknownIdentifier string string
  | RegisterInUse string
  | OtherError string

datatype panic = NilDereference | IndexOutOfRange | TypeAssertion | ThisShouldNeverHappen

datatype 'a result = Ok 'a | Error error | Panic panic

section \<open>The register file\<close>

text \<open>Modelled from the spec: the register package is not among the sources. A
  register is identified by its name and has at most one user; \<open>users\<close> gives the
  current user of each register (\<open>None\<close>: free). The lists are the views of the register
  file: all registers, the general pool, the argument registers of user calls and of
  syscalls, and the return-value registers.\<close>

record registers =
  users :: "string \<Rightarrow> user option"
  AllList :: "string list"
  GeneralList :: "string list"
  CallList :: "string list"
  SyscallList :: "string list"
  ReturnValueList :: "string list"

definition IsFree :: "registers \<Rightarrow> string \<Rightarrow> bool" where
  "IsFree rs r = (users rs r = None)"

definition User :: "registers \<Rightarrow> string \<Rightarrow> user option" where
  "User rs r = users rs r"

definition Free :: "string \<Rightarrow> registers \<Rightarrow> registers" where
  "Free r rs = rs\<lparr>users := (users rs)(r := None)\<rparr>"

text \<open>Modelled from the spec: \<open>use(owner)\<close> takes a register from free to used; on a
  register that already has a user it returns an error and changes nothing.\<close>

definition Use :: "string \<Rightarrow> user \<Rightarrow> registers \<Rightarrow> registers result" where
  "Use r u rs =
     (if users rs r = None then Ok (rs\<lparr>users := (users rs)(r := Some u)\<rparr>)
      else Error (RegisterInUse r))"

text \<open>\<open>ByName\<close> finds a register of the list by its name, or returns nil.\<close>

definition ByName :: "string list \<Rightarrow> string \<Rightarrow> string option" where
  "ByName rl n = (if n \<in> set rl then Some n else None)"

text \<open>Modelled from the spec: \<open>FindFree\<close> returns a register of the list that is not
  currently used, or nil.\<close>

definition FindFree :: "registers \<Rightarrow> string list \<Rightarrow> string option" where
  "FindFree rs rl = find (\<lambda>r. users rs r = None) rl"

section \<open>The assembler\<close>

definition MOV :: string where "MOV = ''mov''"
definition CMP :: string where "CMP = ''cmp''"
definition SYSCALL :: string where "SYSCALL = ''syscall''"
definition CALL :: string where "CALL = ''call''"
definition JMP :: string where "JMP = ''jmp''"
definition JE :: string where "JE = ''je''"
definition INC :: string where "INC = ''inc''"
definition PUSH :: string where "PUSH = ''push''"
definition POP :: string where "POP = ''pop''"

text \<open>\<open>STORE\<close> is used by \<open>StoreNumber\<close> but is not among the mnemonics of the
  sources; it is taken to follow their pattern, the lower-case name.\<close>

definition STORE :: string where "STORE = ''store''"

text \<open>Modelled from the spec: the assembler holds an ordered list of instruction
  records (mnemonic and operand descriptor); the \<open>do\<close> family appends one record.
  A \<open>mov r, r\<close> of a register onto itself is suppressed at emit time.\<close>

definition doNone :: "string \<Rightarrow> instruction list \<Rightarrow> instruction list" where
  "doNone m a = a @ [Instruction m NoOperand]"

definition doLabel :: "string \<Rightarrow> string \<Rightarrow> instruction list \<Rightarrow> instruction list" where
  "doLabel m l a = a @ [Instruction m (LabelOperand l)]"

definition doRegister1 :: "string \<Rightarrow> string \<Rightarrow> instruction list \<Rightarrow> instruction list" where
  "doRegister1 m d a = a @ [Instruction m (Register1 d)]"

definition doRegister2 ::
  "string \<Rightarrow> string \<Rightarrow> string \<Rightarrow> instruction list \<Rightarrow> instruction list" where
  "doRegister2 m d s a =
     (if m = MOV \<and> d = s then a else a @ [Instruction m (Register2 d s)])"

definition doRegisterNumber ::
  "string \<Rightarrow> string \<Rightarrow> 64 word \<Rightarrow> instruction list \<Rightarrow> instruction list" where
  "doRegisterNumber m d n a = a @ [Instruction m (RegisterNumber d n)]"

definition doRegisterAddress ::
  "string \<Rightarrow> string \<Rightarrow> 32 word \<Rightarrow> instruction list \<Rightarrow> instruction list" where
  "doRegisterAddress m d n a = a @ [Instruction m (RegisterAddress d n)]"

definition doMemoryNumber ::
  "string \<Rightarrow> string option \<Rightarrow> 8 word \<Rightarrow> 8 word \<Rightarrow> 64 word
     \<Rightarrow> instruction list \<Rightarrow> instruction list" where
  "doMemoryNumber m d off cnt n a = a @ [Instruction m (MemoryNumber d off cnt n)]"

definition AddLabel :: "string \<Rightarrow> instruction list \<Rightarrow> instruction list" where
  "AddLabel l a = a @ [Label l]"

text \<open>The helpers of \<open>assembler/Helpers.go\<close>.\<close>

definition Syscall :: "instruction list \<Rightarrow> instruction list" where
  "Syscall a = doNone SYSCALL a"

definition Call :: "string \<Rightarrow> instruction list \<Rightarrow> instruction list" where
  "Call l a = doLabel CALL l a"

definition Jump :: "string \<Rightarrow> instruction list \<Rightarrow> instruction list" where
  "Jump l a = doLabel JMP l a"

definition JumpIfEqual :: "string \<Rightarrow> instruction list \<Rightarrow> instruction list" where
  "JumpIfEqual l a = doLabel JE l a"

definition IncreaseRegister :: "string \<Rightarrow> instruction list \<Rightarrow> instruction list" where
  "IncreaseRegister d a = doRegister1 INC d a"

definition PushRegister :: "string \<Rightarrow> instruction list \<Rightarrow> instruction list" where
  "PushRegister d a = doRegister1 PUSH d a"

definition PopRegister :: "string \<Rightarrow> instruction list \<Rightarrow> instruction list" where
  "PopRegister d a = doRegister1 POP d a"

definition MoveRegisterRegister ::
  "string \<Rightarrow> string \<Rightarrow> instruction list \<Rightarrow> instruction list" where
  "MoveRegisterRegister d s a = doRegister2 MOV d s a"

definition MoveRegisterNumber ::
  "string \<Rightarrow> 64 word \<Rightarrow> instruction list \<Rightarrow> instruction list" where
  "MoveRegisterNumber d n a = doRegisterNumber MOV d n a"

definition StoreNumber ::
  "string option \<Rightarrow> 8 word \<Rightarrow> 8 word \<Rightarrow> 64 word \<Rightarrow> instruction list \<Rightarrow> instruction list" where
  "StoreNumber d off cnt n a = doMemoryNumber STORE d off cnt n a"

definition MoveRegisterAddress ::
  "string \<Rightarrow> 32 word \<Rightarrow> instruction list \<Rightarrow> instruction list" where
  "MoveRegisterAddress d addr a = doRegisterAddress MOV d addr a"

definition CompareRegisterRegister ::
  "string \<Rightarrow> string \<Rightarrow> instruction list \<Rightarrow> instruction list" where
  "CompareRegisterRegister d s a = doRegister2 CMP d s a"

section \<open>The state of one function's compilation\<close>

record ForLoop =
  labelStart :: string
  labelEnd :: string
  loopCounter :: "string option"
  limit :: "string option"

record ForState =
  counter :: nat
  stack :: "ForLoop list"

text \<open>\<open>events\<close> logs, in program order, the synchronisation with the callee's compile
  task and the atomic accesses to side-effect counters. \<open>InstructionEndPosition\<close> is the
  position that the method of this name returns in the state; \<open>CallCounts\<close> holds the
  \<open>CallCount\<close> fields of the shared function objects, by function name.\<close>

datatype event = Wait string | LoadSideEffects string | AddSideEffects

record state =
  assembler :: "instruction list"
  strings :: "string list"
  registers :: registers
  scopes :: "(string \<rightharpoonup> variable) list"
  stateFunction :: func
  environment :: "string \<rightharpoonup> func"
  CallCounts :: "string \<Rightarrow> nat"
  forLoop :: ForState
  tokenCursor :: int
  InstructionEndPosition :: int
  events :: "event list"

text \<open>Modelled from the spec: \<open>Get\<close> walks the scope stack outward (the innermost scope
  is the head of the list) and returns nil on a miss.\<close>

fun Get :: "(string \<rightharpoonup> variable) list \<Rightarrow> string \<Rightarrow> variable option" where
  "Get [] n = None"
| "Get (m # ms) n = (case m n of Some v \<Rightarrow> Some v | None \<Rightarrow> Get ms n)"

text \<open>Modelled from the spec: \<open>Push\<close> opens a scope.\<close>

definition Push :: "(string \<rightharpoonup> variable) list \<Rightarrow> (string \<rightharpoonup> variable) list" where
  "Push ms = Map.empty # ms"

text \<open>The parts of the compiler that the call code uses and that are not among the
  sources are parameters of the model.\<close>

record externals =
  PolymorphName :: "string \<Rightarrow> nat \<Rightarrow> string"
  BuiltinFunctions :: "string \<rightharpoonup> func"
  UnknownFunctionError :: "state \<Rightarrow> string \<Rightarrow> error"
  ExpressionToRegister :: "state \<Rightarrow> expression \<Rightarrow> string \<Rightarrow> (spec_type \<times> state) result"
  UseVariable :: "state \<Rightarrow> variable \<Rightarrow> variable \<times> state"
  SetRegister :: "state \<Rightarrow> variable \<Rightarrow> string \<Rightarrow> state"
  InlineInto :: "func \<Rightarrow> state \<Rightarrow> state"
  AddString :: "string list \<Rightarrow> string \<Rightarrow> 32 word \<times> string list"
  Atoi :: "string \<Rightarrow> int"

text \<open>Modelled from the spec: the names of the builtins, and the number of the Linux
  \<open>write\<close> system call on x86-64.\<close>

definition BuiltinPrint :: string where "BuiltinPrint = ''print''"
definition BuiltinStore :: string where "BuiltinStore = ''store''"
definition BuiltinSyscall :: string where "BuiltinSyscall = ''syscall''"
definition Write :: nat where "Write = 1"

section \<open>Calls\<close>

subsection \<open>\<open>printLn\<close>\<close>

definition printLn :: "externals \<Rightarrow> string \<Rightarrow> state \<Rightarrow> state result" where
  "printLn x text s =
     (let text1 = text @ [CHR 0x0A];
          (address, pool) = AddString x (strings s) text1;
          sys = SyscallList (registers s)
      in if length sys < 4 then Panic IndexOutOfRange
         else
           let a1 = MoveRegisterNumber (sys ! 0) (of_nat Write) (assembler s);
               a2 = MoveRegisterNumber (sys ! 1) 1 a1;
               a3 = MoveRegisterAddress (sys ! 2) address a2;
               a4 = MoveRegisterNumber (sys ! 3) (of_nat (length text1)) a3
           in Ok (s\<lparr>strings := pool, assembler := Syscall a4\<rparr>))"

subsection \<open>\<open>BeforeCall\<close>\<close>

text \<open>The loop that determines the registers to save: it visits the callee's used
  register names and appends to \<open>pushRegisters\<close>. The unchecked type assertion panics
  when the user of an occupied register is not a variable.\<close>

fun determinePushRegisters ::
  "externals \<Rightarrow> state \<Rightarrow> string list \<Rightarrow> string list \<Rightarrow> string list result" where
  "determinePushRegisters x s [] pushRegisters = Ok pushRegisters"
| "determinePushRegisters x s (registerName # names) pushRegisters =
     (case ByName (AllList (registers s)) registerName of
        None \<Rightarrow> Panic NilDereference
      | Some callModifiedRegister \<Rightarrow>
          if IsFree (registers s) callModifiedRegister
          then determinePushRegisters x s names pushRegisters
          else
            (case User (registers s) callModifiedRegister of
               Some (UserVariable variable) \<Rightarrow>
                 if AliveUntil variable < InstructionEndPosition s
                 then determinePushRegisters x s names pushRegisters
                 else determinePushRegisters x s names (pushRegisters @ [callModifiedRegister])
             | _ \<Rightarrow> Panic TypeAssertion))"

text \<open>The check whether the move can be skipped: the parameter is a leaf identifier
  whose variable already lives in the call register.\<close>

definition alreadyInRegister :: "state \<Rightarrow> expression \<Rightarrow> string \<Rightarrow> variable option" where
  "alreadyInRegister s parameter callRegister =
     (if IsLeaf parameter \<and> Kind (Token parameter) = Identifier
      then
        (case Get (scopes s) (TokenText (Token parameter)) of
           Some variable \<Rightarrow>
             if VarRegister variable = Some callRegister then Some variable else None
         | None \<Rightarrow> None)
      else None)"

text \<open>Moving the current user of an occupied call register to a free general register.\<close>

definition relocate :: "externals \<Rightarrow> string \<Rightarrow> state \<Rightarrow> state result" where
  "relocate x callRegister s =
     (if IsFree (registers s) callRegister then Ok s
      else
        (case FindFree (registers s) (GeneralList (registers s)) of
           None \<Rightarrow> Error ExceededMaxVariables
         | Some freeRegister \<Rightarrow>
             let s1 = s\<lparr>assembler := MoveRegisterRegister freeRegister callRegister (assembler s)\<rparr>
             in (case User (registers s1) callRegister of
                   Some (UserVariable variable) \<Rightarrow>
                     let s2 = SetRegister x s1 variable freeRegister
                     in Ok (s2\<lparr>registers := Free callRegister (registers s2)\<rparr>)
                 | _ \<Rightarrow> Panic ThisShouldNeverHappen)))"

text \<open>\<open>_ = callRegister.Use(function.Parameters[i])\<close>: the error of \<open>Use\<close> is dropped.\<close>

definition claimRegister :: "string \<Rightarrow> variable \<Rightarrow> state \<Rightarrow> state" where
  "claimRegister callRegister declared s =
     (case Use callRegister (UserVariable declared) (registers s) of
        Ok rs \<Rightarrow> s\<lparr>registers := rs\<rparr>
      | _ \<Rightarrow> s)"

text \<open>One round of the loop that moves the parameters into the call registers.\<close>

definition moveParameter ::
  "externals \<Rightarrow> func \<Rightarrow> string list \<Rightarrow> nat \<Rightarrow> expression \<Rightarrow> state \<Rightarrow> state result" where
  "moveParameter x function callRegisters i parameter s =
     (if length callRegisters \<le> i then Panic IndexOutOfRange
      else
        let callRegister = callRegisters ! i
        in (case alreadyInRegister s parameter callRegister of
              Some variable \<Rightarrow> Ok (snd (UseVariable x s variable))
            | None \<Rightarrow>
                (case relocate x callRegister s of
                   Error e \<Rightarrow> Error e
                 | Panic p \<Rightarrow> Panic p
                 | Ok s1 \<Rightarrow>
                     if length (Parameters function) \<le> i then Panic IndexOutOfRange
                     else
                       let declared = Parameters function ! i;
                           s2 = claimRegister callRegister declared s1
                       in (case ExpressionToRegister x s2 parameter callRegister of
                             Error e \<Rightarrow> Error e
                           | Panic p \<Rightarrow> Panic p
                           | Ok (typ, s3) \<Rightarrow>
                               if \<not> NoParameterCheck function \<and> typ \<noteq> VarType declared
                               then Error (InvalidType (TypeString typ)
                                      (TypeString (VarType declared)) (VarName declared))
                               else Ok s3))))"

fun moveParameters ::
  "externals \<Rightarrow> func \<Rightarrow> string list \<Rightarrow> nat \<Rightarrow> expression list \<Rightarrow> state \<Rightarrow> state result" where
  "moveParameters x function callRegisters i [] s = Ok s"
| "moveParameters x function callRegisters i (parameter # rest) s =
     (case moveParameter x function callRegisters i parameter s of
        Ok s1 \<Rightarrow> moveParameters x function callRegisters (Suc i) rest s1
      | Error e \<Rightarrow> Error e
      | Panic p \<Rightarrow> Panic p)"

definition BeforeCall ::
  "externals \<Rightarrow> func \<Rightarrow> expression list \<Rightarrow> state
     \<Rightarrow> (string list \<times> string list \<times> state) result" where
  "BeforeCall x function parameters s =
     (let s1 = s\<lparr>events := events s @ [Wait (Name function)]\<rparr>
      in (case determinePushRegisters x s1 (UsedRegisterNames function) [] of
            Error e \<Rightarrow> Error e
          | Panic p \<Rightarrow> Panic p
          | Ok pushRegisters \<Rightarrow>
              let s2 = s1\<lparr>assembler :=
                         foldl (\<lambda>a reg. PushRegister reg a) (assembler s1) pushRegisters\<rparr>;
                  callRegisters =
                    (if Name function = BuiltinSyscall then SyscallList (registers s2)
                     else CallList (registers s2))
              in (case moveParameters x function callRegisters 0 parameters s2 of
                    Error e \<Rightarrow> Error e
                  | Panic p \<Rightarrow> Panic p
                  | Ok s3 \<Rightarrow> Ok (pushRegisters, callRegisters, s3))))"

subsection \<open>\<open>AfterCall\<close>\<close>

definition AfterCall :: "func \<Rightarrow> string list \<Rightarrow> string list \<Rightarrow> state \<Rightarrow> state" where
  "AfterCall function pushedRegisters callRegisters s =
     (let s1 = s\<lparr>CallCounts :=
                  (CallCounts s)(Name function := CallCounts s (Name function) + 1)\<rparr>;
          s2 = s1\<lparr>assembler :=
                  foldl (\<lambda>a reg. PopRegister reg a) (assembler s1) (rev pushedRegisters)\<rparr>
      in s2\<lparr>registers :=
             foldl (\<lambda>rs callRegister. Free callRegister rs) (registers s2) callRegisters\<rparr>)"

subsection \<open>\<open>CallExpression\<close>\<close>

text \<open>The builtin \<open>print\<close>.\<close>

definition callPrint ::
  "externals \<Rightarrow> func \<Rightarrow> expression \<Rightarrow> state \<Rightarrow> (expression \<times> state) result" where
  "callPrint x function expr s =
     (case Children expr of
        [] \<Rightarrow> Panic IndexOutOfRange
      | parameter # _ \<Rightarrow>
          if Kind (Token parameter) \<noteq> Text
          then Error (TextParameterRequired (Name function) (TokenText (Token parameter)))
          else
            (case printLn x (TokenText (Token parameter)) s of
               Ok s1 \<Rightarrow> Ok (expr, s1)
             | Error e \<Rightarrow> Error e
             | Panic p \<Rightarrow> Panic p))"

text \<open>The builtin \<open>store\<close>. The result of the scope lookup is used without a nil check.\<close>

definition callStore ::
  "externals \<Rightarrow> expression \<Rightarrow> state \<Rightarrow> (expression \<times> state) result" where
  "callStore x expr s =
     (let parameters = Children expr
      in if length parameters < 4 then Panic IndexOutOfRange
         else
           let variableName = TokenText (Token (parameters ! 0));
               offsetString = TokenText (Token (parameters ! 1));
               byteCountString = TokenText (Token (parameters ! 2));
               valueString = TokenText (Token (parameters ! 3));
               variable = Get (scopes s) variableName;
               offset = Atoi x offsetString;
               byteCount = Atoi x byteCountString;
               val = Atoi x valueString
           in (case variable of
                 None \<Rightarrow> Panic NilDereference
               | Some v \<Rightarrow>
                   let (v1, s1) = UseVariable x s v
                   in Ok (expr, s1\<lparr>assembler :=
                            StoreNumber (VarRegister v1) (word_of_int offset)
                              (word_of_int byteCount) (word_of_int val) (assembler s1)\<rparr>)))"

text \<open>The return value register is claimed for the call expression; when the
  expression lives elsewhere, the value is moved and the register is freed again.\<close>

definition claimReturnValue ::
  "func \<Rightarrow> expression \<Rightarrow> state \<Rightarrow> (expression \<times> state) result" where
  "claimReturnValue function expr s =
     (case ReturnValueList (registers s) of
        [] \<Rightarrow> Panic IndexOutOfRange
      | returnValueRegister # _ \<Rightarrow>
          (case Use returnValueRegister (UserExpression expr) (registers s) of
             Error e \<Rightarrow> Error e
           | Panic p \<Rightarrow> Panic p
           | Ok rs \<Rightarrow>
               let s1 = s\<lparr>registers := rs\<rparr>;
                   s2 = (if Register expr \<noteq> Some returnValueRegister
                         then
                           let s3 = (case Register expr of
                                       Some r \<Rightarrow> s1\<lparr>assembler :=
                                         MoveRegisterRegister r returnValueRegister (assembler s1)\<rparr>
                                     | None \<Rightarrow> s1)
                           in s3\<lparr>registers := Free returnValueRegister (registers s3)\<rparr>
                         else s1);
                   expr1 = (if HasReturnValue function
                            then Expression (Token expr) (Children expr) (Register expr)
                                   (Some (ReturnTypes function ! 0))
                            else expr)
               in Ok (expr1, s2)))"

text \<open>Calling a user function or the builtin \<open>syscall\<close>.\<close>

definition callFunction ::
  "externals \<Rightarrow> string \<Rightarrow> func \<Rightarrow> expression \<Rightarrow> state \<Rightarrow> (expression \<times> state) result" where
  "callFunction x functionName function expr s =
     (case BeforeCall x function (Children expr) s of
        Error e \<Rightarrow> Error e
      | Panic p \<Rightarrow> Panic p
      | Ok (pushRegisters, callRegisters, s1) \<Rightarrow>
          let s2 = (if functionName = BuiltinSyscall
                    then s1\<lparr>assembler := Syscall (assembler s1)\<rparr>
                    else if CanInline function then InlineInto x function s1
                    else s1\<lparr>assembler := Call functionName (assembler s1)\<rparr>);
              s3 = AfterCall function pushRegisters callRegisters s2
          in claimReturnValue function expr s3)"

text \<open>The side-effect counter of the callee is loaded, and the caller's counter
  incremented, before anything else is done with the callee.\<close>

definition markSideEffects :: "func \<Rightarrow> state \<Rightarrow> state" where
  "markSideEffects function s =
     (let s1 = s\<lparr>events := events s @ [LoadSideEffects (Name function)]\<rparr>
      in if SideEffects function > 0
         then s1\<lparr>stateFunction :=
                    (stateFunction s1)\<lparr>SideEffects := SideEffects (stateFunction s1) + 1\<rparr>,
                  events := events s1 @ [AddSideEffects]\<rparr>
         else s1)"

text \<open>The callee is looked up among the user functions first, then among the builtins.\<close>

definition lookupFunction :: "externals \<Rightarrow> state \<Rightarrow> string \<Rightarrow> func option \<times> bool" where
  "lookupFunction x s functionName =
     (case environment s functionName of
        Some f \<Rightarrow> (Some f, False)
      | None \<Rightarrow> (BuiltinFunctions x functionName, True))"

definition CallExpression ::
  "externals \<Rightarrow> expression \<Rightarrow> state \<Rightarrow> (expression \<times> state) result" where
  "CallExpression x expr s =
     (let parameters = Children expr;
          functionName = PolymorphName x (TokenText (Token expr)) (length parameters);
          (found, isBuiltin) = lookupFunction x s functionName
      in (case found of
            None \<Rightarrow> Error (UnknownFunctionError x s functionName)
          | Some function \<Rightarrow>
              let s1 = markSideEffects function s
              in if \<not> NoParameterCheck function
                      \<and> length parameters \<noteq> length (Parameters function)
                 then Error (ParameterCount (Name function) (length parameters)
                        (length (Parameters function)))
                 else if isBuiltin \<and> functionName = BuiltinPrint
                 then callPrint x function expr s1
                 else if isBuiltin \<and> functionName = BuiltinStore
                 then callStore x expr s1
                 else callFunction x functionName function expr s1))"

section \<open>For loops\<close>

text \<open>Modelled from the spec: \<open>token.Index\<close> is not among the sources. A header
  without \<open>..\<close> is what \<open>ForStart\<close> finds by \<open>rangePos == -1\<close>, and the tokens before
  and after \<open>..\<close> are cut at \<open>rangePos\<close>: \<open>Index\<close> is the position of the first token of
  the given kind, and \<open>-1\<close> when there is none.\<close>

fun Index :: "token list \<Rightarrow> kind \<Rightarrow> int" where
  "Index [] k = -1"
| "Index (t # ts) k =
     (if Kind t = k then 0
      else (let i = Index ts k in if i = -1 then -1 else i + 1))"

text \<open>\<open>fmt.Sprintf("%d", n)\<close> for a counter that is never negative.\<close>

definition digit :: "nat \<Rightarrow> char" where
  "digit n = ''0123456789'' ! n"

function decimal :: "nat \<Rightarrow> string" where
  "decimal n = (if n < 10 then [digit n] else decimal (n div 10) @ [digit (n mod 10)])"
  by pat_completeness auto
termination
  by (relation "measure (\<lambda>n. n)") auto

declare decimal.simps [simp del]

text \<open>The parts of the compiler that the for-loop code uses and that are not among the
  sources are parameters of the model. The register of the variable that
  \<open>AssignVariable\<close> returns may be nil, so the counter register of a loop is optional.\<close>

record for_externals =
  Expect :: "state \<Rightarrow> kind \<Rightarrow> state"
  TokensToRegister :: "state \<Rightarrow> token list \<Rightarrow> string \<Rightarrow> state result"
  AssignVariable :: "state \<Rightarrow> token list \<Rightarrow> (variable \<times> state) result"
  PopScope :: "state \<Rightarrow> state result"

definition FindFreeRegister :: "registers \<Rightarrow> string option" where
  "FindFreeRegister rs = FindFree rs (GeneralList rs)"

text \<open>Modelled from the spec: \<open>CompareExpression\<close> is not among the sources. For a for
  loop the compiler emits the label \<open>for_N\<close>, evaluates the limit into a temporary
  register and compares the counter with it; the temporary register is returned.\<close>

definition CompareExpression ::
  "for_externals \<Rightarrow> state \<Rightarrow> string option \<Rightarrow> token list \<Rightarrow> string
     \<Rightarrow> (string option \<times> state) result" where
  "CompareExpression fx s register expression labelBeforeComparison =
     (case register of
        None \<Rightarrow> Panic NilDereference
      | Some counterRegister \<Rightarrow>
          let s1 = s\<lparr>assembler := AddLabel labelBeforeComparison (assembler s)\<rparr>
          in (case FindFreeRegister (registers s1) of
                None \<Rightarrow> Error ExceededMaxVariables
              | Some temporary \<Rightarrow>
                  (case TokensToRegister fx s1 expression temporary of
                     Error e \<Rightarrow> Error e
                   | Panic p \<Rightarrow> Panic p
                   | Ok s2 \<Rightarrow>
                       Ok (Some temporary,
                           s2\<lparr>assembler :=
                                CompareRegisterRegister counterRegister temporary
                                  (assembler s2)\<rparr>))))"

text \<open>The start of the range: evaluated into a free register when the header has
  no operator token, and assigned to a variable otherwise.\<close>

definition rangeStart ::
  "for_externals \<Rightarrow> token list \<Rightarrow> int \<Rightarrow> state \<Rightarrow> (string option \<times> state) result" where
  "rangeStart fx expression rangePos s =
     (let operatorPos = Index expression Operator
      in if operatorPos = -1
         then
           let start = take (nat rangePos) expression
           in if length start = 0 then Error MissingRangeStart
              else
                (case FindFreeRegister (registers s) of
                   None \<Rightarrow> Error ExceededMaxVariables
                 | Some register \<Rightarrow>
                     (case TokensToRegister fx s start register of
                        Error e \<Rightarrow> Error e
                      | Panic p \<Rightarrow> Panic p
                      | Ok s1 \<Rightarrow> Ok (Some register, s1)))
         else
           let assignment = take (nat rangePos) expression
           in (case AssignVariable fx s assignment of
                 Error e \<Rightarrow> Error e
               | Panic p \<Rightarrow> Panic p
               | Ok (variable, s1) \<Rightarrow> Ok (VarRegister variable, s1)))"

definition ForStart :: "for_externals \<Rightarrow> token list \<Rightarrow> state \<Rightarrow> state result" where
  "ForStart fx tokens s =
     (let s1 = Expect fx s Keyword;
          s2 = s1\<lparr>scopes := Push (scopes s1)\<rparr>
      in if tokens = [] then Panic IndexOutOfRange
         else
           let expression = drop 1 tokens;
               rangePos = Index expression RangeKind
           in if rangePos = -1 then Error MissingRange
              else
                (case rangeStart fx expression rangePos s2 of
                   Error e \<Rightarrow> Error e
                 | Panic p \<Rightarrow> Panic p
                 | Ok (register, s3) \<Rightarrow>
                     let s4 = s3\<lparr>forLoop := (forLoop s3)\<lparr>counter := counter (forLoop s3) + 1\<rparr>\<rparr>;
                         labelStart = ''for_'' @ decimal (counter (forLoop s4));
                         labelEnd = ''for_'' @ decimal (counter (forLoop s4)) @ ''_end'';
                         upperLimit = drop (nat rangePos + 1) expression
                     in if length upperLimit = 0 then Error MissingRangeLimit
                        else
                          let s5 = s4\<lparr>tokenCursor := tokenCursor s4 + 1\<rparr>
                          in (case CompareExpression fx s5 register upperLimit labelStart of
                                Error e \<Rightarrow> Error e
                              | Panic p \<Rightarrow> Panic p
                              | Ok (temporary, s6) \<Rightarrow>
                                  let s7 = s6\<lparr>assembler := JumpIfEqual labelEnd (assembler s6)\<rparr>
                                  in Ok (s7\<lparr>forLoop := (forLoop s7)\<lparr>stack :=
                                           stack (forLoop s7) @
                                             [\<lparr>labelStart = labelStart, labelEnd = labelEnd,
                                               loopCounter = register,
                                               limit = temporary\<rparr>]\<rparr>\<rparr>))))"

definition ForEnd :: "for_externals \<Rightarrow> state \<Rightarrow> state result" where
  "ForEnd fx s =
     (case PopScope fx s of
        Error e \<Rightarrow> Error e
      | Panic p \<Rightarrow> Panic p
      | Ok s1 \<Rightarrow>
          if stack (forLoop s1) = [] then Panic IndexOutOfRange
          else
            let loop = last (stack (forLoop s1));
                s2 = s1\<lparr>forLoop := (forLoop s1)\<lparr>stack := butlast (stack (forLoop s1))\<rparr>\<rparr>
            in (case loopCounter loop of
                  None \<Rightarrow> Panic NilDereference
                | Some counterRegister \<Rightarrow>
                    let a1 = IncreaseRegister counterRegister (assembler s2);
                        a2 = Jump (labelStart loop) a1;
                        a3 = AddLabel (labelEnd loop) a2;
                        s3 = s2\<lparr>assembler := a3,
                                registers := Free counterRegister (registers s2)\<rparr>
                    in Ok (case limit loop of
                             Some limitRegister \<Rightarrow>
                               s3\<lparr>registers := Free limitRegister (registers s3)\<rparr>
                           | None \<Rightarrow> s3)))"

section \<open>The build\<close>

text \<open>The code of the executable is assembled by the external assembler package: the
  final code is the sequence of the operations applied to a new assembler.\<close>

datatype 'c asm_op = AsmCall string | AsmExit nat | AsmMerge 'c

record Build =
  Path :: string
  ExecutablePath :: string
  ExecutableName :: string
  Functions :: "string \<rightharpoonup> func"
  WriteExecutable :: bool
  Optimize :: bool
  Verbose :: bool

text \<open>What the select loop of \<open>Compile\<close> receives, in the order in which it receives it:
  an error, the closing of the error channel, or a compiled function. The loop ends
  when it finds the results channel closed, which is the end of the list.\<close>

datatype message = ErrorMessage error | ErrorsClosed | Compiled func

fun receive :: "message list \<Rightarrow> func list \<Rightarrow> error + func list" where
  "receive [] results = Inr results"
| "receive (ErrorMessage err # ms) results = Inl err"
| "receive (ErrorsClosed # ms) results = receive ms results"
| "receive (Compiled compiled # ms) results = receive ms (results @ [compiled])"

record 'c build_externals =
  Finalize :: "instruction list \<Rightarrow> 'c"
  Verify :: "'c asm_op list \<Rightarrow> error list"
  WriteToFile :: "'c asm_op list \<Rightarrow> string \<Rightarrow> error option"
  Chmod :: "string \<Rightarrow> nat \<Rightarrow> error option"

text \<open>The loop that merges the code of the functions that have been called.\<close>

fun mergeUsed :: "'c build_externals \<Rightarrow> func list \<Rightarrow> 'c asm_op list \<Rightarrow> 'c asm_op list" where
  "mergeUsed bx [] finalCode = finalCode"
| "mergeUsed bx (function # rest) finalCode =
     (if CallCount function = 0 then mergeUsed bx rest finalCode
      else mergeUsed bx rest (finalCode @ [AsmMerge (Finalize bx (FuncAssembler function))]))"

definition writeToDisk :: "'c build_externals \<Rightarrow> 'c asm_op list \<Rightarrow> string \<Rightarrow> error option" where
  "writeToDisk bx main filePath =
     (case WriteToFile bx main filePath of
        Some err \<Rightarrow> Some err
      | None \<Rightarrow> Chmod bx filePath 493)"

text \<open>\<open>Compile\<close> returns its error (or nil) and, when it gets as far as writing the
  executable, the final code that it hands to \<open>writeToDisk\<close>.\<close>

definition Compile ::
  "'c build_externals \<Rightarrow> Build \<Rightarrow> message list \<Rightarrow> error option \<times> 'c asm_op list option" where
  "Compile bx build messages =
     (if Functions build ''main'' = None then (Some MainMissing, None)
      else
        let finalCode = [AsmCall ''main'', AsmExit 0]
        in (case receive messages [] of
              Inl err \<Rightarrow> (Some err, None)
            | Inr results \<Rightarrow>
                if \<not> WriteExecutable build then (None, None)
                else
                  let finalCode1 = mergeUsed bx results finalCode
                  in (case Verify bx finalCode1 of
                        err # _ \<Rightarrow> (Some err, None)
                      | [] \<Rightarrow>
                          (writeToDisk bx finalCode1 (ExecutablePath build),
                           Some finalCode1))))"

section \<open>Running the emitted code\<close>

text \<open>The run-time meaning of the instructions is not part of the sources. For the
  instructions that the code of a for loop consists of it is that of x86-64: \<open>cmp\<close> sets
  the equality flag, \<open>je\<close> jumps to its label when the flag is set, \<open>jmp\<close> jumps always,
  \<open>inc\<close> adds one, \<open>mov\<close> copies. Any other instruction is outside this fragment.\<close>

record machine =
  pc :: nat
  registerValue :: "string \<Rightarrow> 64 word"
  equalFlag :: bool

fun labelPosition :: "instruction list \<Rightarrow> string \<Rightarrow> nat option" where
  "labelPosition [] l = None"
| "labelPosition (i # rest) l =
     (if i = Label l then Some 0 else map_option Suc (labelPosition rest l))"

definition jump :: "instruction list \<Rightarrow> string \<Rightarrow> machine \<Rightarrow> machine option" where
  "jump code l m = map_option (\<lambda>p. m\<lparr>pc := p\<rparr>) (labelPosition code l)"

definition step :: "instruction list \<Rightarrow> machine \<Rightarrow> machine option" where
  "step code m =
     (if length code \<le> pc m then None
      else
        (case code ! pc m of
           Label l \<Rightarrow> Some (m\<lparr>pc := pc m + 1\<rparr>)
         | Instruction mnemonic operand \<Rightarrow>
             (case operand of
                Register2 d s \<Rightarrow>
                  if mnemonic = CMP
                  then Some (m\<lparr>equalFlag := (registerValue m d = registerValue m s), pc := pc m + 1\<rparr>)
                  else if mnemonic = MOV
                  then Some (m\<lparr>registerValue := (registerValue m)(d := registerValue m s), pc := pc m + 1\<rparr>)
                  else None
              | RegisterNumber d n \<Rightarrow>
                  if mnemonic = MOV
                  then Some (m\<lparr>registerValue := (registerValue m)(d := n), pc := pc m + 1\<rparr>)
                  else None
              | Register1 d \<Rightarrow>
                  if mnemonic = INC
                  then Some (m\<lparr>registerValue := (registerValue m)(d := registerValue m d + 1), pc := pc m + 1\<rparr>)
                  else None
              | LabelOperand l \<Rightarrow>
                  if mnemonic = JE
                  then (if equalFlag m then jump code l m else Some (m\<lparr>pc := pc m + 1\<rparr>))
                  else if mnemonic = JMP then jump code l m
                  else None
              | _ \<Rightarrow> None)))"

fun run :: "nat \<Rightarrow> instruction list \<Rightarrow> machine \<Rightarrow> machine option" where
  "run 0 code m = Some m"
| "run (Suc n) code m = (case step code m of None \<Rightarrow> None | Some m1 \<Rightarrow> run n code m1)"

section \<open>Notions used by the properties\<close>

text \<open>A register is saved across a call when it is held by a variable whose
  \<open>AliveUntil\<close> is not before the end position of the current instruction.\<close>

definition savedAcrossCall :: "state \<Rightarrow> string \<Rightarrow> bool" where
  "savedAcrossCall s r =
     (case users (registers s) r of
        Some (UserVariable v) \<Rightarrow> InstructionEndPosition s \<le> AliveUntil v
      | _ \<Rightarrow> False)"

text \<open>The parts of the compiler that are parameters of the model only append to the
  assembler's instruction list.\<close>

definition appendOnly :: "externals \<Rightarrow> bool" where
  "appendOnly x =
     ((\<forall>s e r t s1. ExpressionToRegister x s e r = Ok (t, s1)
          \<longrightarrow> (\<exists>c. assembler s1 = assembler s @ c))
    \<and> (\<forall>s v. \<exists>c. assembler (snd (UseVariable x s v)) = assembler s @ c)
    \<and> (\<forall>s v r. \<exists>c. assembler (SetRegister x s v r) = assembler s @ c)
    \<and> (\<forall>f s. \<exists>c. assembler (InlineInto x f s) = assembler s @ c))"

text \<open>Evaluating an argument expression never fails with a \<open>ParameterCount\<close> error.\<close>

definition neverParameterCount :: "externals \<Rightarrow> bool" where
  "neverParameterCount x =
     (\<forall>s e r n g q. ExpressionToRegister x s e r \<noteq> Error (ParameterCount n g q))"

text \<open>The parts of the compiler that are parameters of the for-loop model only append
  to the assembler's instruction list and leave the for-loop state alone; \<open>Expect\<close> and
  \<open>PopScope\<close> emit nothing.\<close>

definition forExternalsFrame :: "for_externals \<Rightarrow> bool" where
  "forExternalsFrame fx =
     ((\<forall>s k. assembler (Expect fx s k) = assembler s \<and> forLoop (Expect fx s k) = forLoop s)
    \<and> (\<forall>s ts r s1. TokensToRegister fx s ts r = Ok s1
          \<longrightarrow> (\<exists>c. assembler s1 = assembler s @ c) \<and> forLoop s1 = forLoop s)
    \<and> (\<forall>s ts v s1. AssignVariable fx s ts = Ok (v, s1)
          \<longrightarrow> (\<exists>c. assembler s1 = assembler s @ c) \<and> forLoop s1 = forLoop s)
    \<and> (\<forall>s s1. PopScope fx s = Ok s1
          \<longrightarrow> assembler s1 = assembler s \<and> forLoop s1 = forLoop s))"


section \<open>Example inputs\<close>

text \<open>Concrete inputs on which the theorems below are evaluated: a small register
  file, a builtin table, simple stand-ins for the parts of the compiler that are
  parameters of the model, and a few states and call expressions.\<close>

definition exampleRegisters :: registers where
  "exampleRegisters =
     \<lparr>users = (\<lambda>r. None),
      AllList = [''rax'', ''rbx'', ''rcx'', ''rdx'', ''rsi'', ''rdi''],
      GeneralList = [''rbx'', ''rcx''],
      CallList = [''rdi'', ''rsi'', ''rdx''],
      SyscallList = [''rax'', ''rdi'', ''rsi'', ''rdx''],
      ReturnValueList = [''rax'']\<rparr>"

definition exampleFunction :: "string \<Rightarrow> variable list \<Rightarrow> func" where
  "exampleFunction n ps =
     \<lparr>Name = n, Parameters = ps, ReturnTypes = [], NoParameterCheck = False,
      SideEffects = 0, CallCount = 0, UsedRegisterNames = [], CanInline = False,
      FuncAssembler = []\<rparr>"

definition exampleParameter :: "string \<Rightarrow> string \<Rightarrow> variable" where
  "exampleParameter n t = \<lparr>VarName = n, VarType = Type t, VarRegister = None, AliveUntil = 0\<rparr>"

text \<open>The stand-in for \<open>ExpressionToRegister\<close> emits nothing; a text literal has the
  type \<open>Text\<close>, anything else \<open>Int64\<close>.\<close>

definition exampleExpressionToRegister ::
  "state \<Rightarrow> expression \<Rightarrow> string \<Rightarrow> (spec_type \<times> state) result" where
  "exampleExpressionToRegister s e r =
     Ok (if Kind (Token e) = Text then Type ''Text'' else Type ''Int64'', s)"

definition examplePrint :: func where
  "examplePrint = (exampleFunction ''print'' [exampleParameter ''text'' ''Text''])\<lparr>SideEffects := 1\<rparr>"

definition exampleStore :: func where
  "exampleStore = exampleFunction ''store''
     [exampleParameter ''variable'' ''Int64'', exampleParameter ''offset'' ''Int64'',
      exampleParameter ''byteCount'' ''Int64'', exampleParameter ''value'' ''Int64'']"

definition exampleSyscall :: func where
  "exampleSyscall = (exampleFunction ''syscall''
     [exampleParameter ''number'' ''Int64'', exampleParameter ''a'' ''Int64'',
      exampleParameter ''b'' ''Int64'', exampleParameter ''c'' ''Int64''])
     \<lparr>NoParameterCheck := True, SideEffects := 1\<rparr>"

definition exampleExternals :: externals where
  "exampleExternals =
     \<lparr>PolymorphName = (\<lambda>name n. name),
      BuiltinFunctions = map_of
        [(''print'', examplePrint), (''store'', exampleStore), (''syscall'', exampleSyscall)],
      UnknownFunctionError = (\<lambda>s name. UnknownFunction name []),
      ExpressionToRegister = exampleExpressionToRegister,
      UseVariable = (\<lambda>s v. (v, s)),
      SetRegister = (\<lambda>s v r. s\<lparr>registers := (registers s)\<lparr>users :=
         (users (registers s))(r := Some (UserVariable (v\<lparr>VarRegister := Some r\<rparr>)))\<rparr>\<rparr>),
      InlineInto = (\<lambda>f s. s\<lparr>assembler := assembler s @ FuncAssembler f\<rparr>),
      AddString = (\<lambda>pool str. (of_nat (length (concat pool)), pool @ [str])),
      Atoi = (\<lambda>str. 0)\<rparr>"

text \<open>A user function \<open>f(x Int64)\<close> with side effects that clobbers three registers.\<close>

definition exampleF :: func where
  "exampleF = (exampleFunction ''f'' [exampleParameter ''x'' ''Int64''])
     \<lparr>SideEffects := 1, UsedRegisterNames := [''rdi'', ''rbx'', ''rcx'']\<rparr>"

definition exampleState :: state where
  "exampleState =
     \<lparr>assembler = [], strings = [], registers = exampleRegisters, scopes = [Map.empty],
      stateFunction = exampleFunction ''main'' [],
      environment = map_of [(''f'', exampleF)],
      CallCounts = (\<lambda>name. 0),
      forLoop = \<lparr>counter = 0, stack = []\<rparr>, tokenCursor = 0,
      InstructionEndPosition = 10, events = []\<rparr>"

definition leaf :: "kind \<Rightarrow> string \<Rightarrow> expression" where
  "leaf k str = Expression (MkToken k str) [] None None"

definition callOf :: "string \<Rightarrow> expression list \<Rightarrow> expression" where
  "callOf name arguments = Expression (MkToken Identifier name) arguments None None"

definition exampleVariable :: "string \<Rightarrow> string \<Rightarrow> int \<Rightarrow> variable" where
  "exampleVariable n r alive =
     \<lparr>VarName = n, VarType = Type ''Int64'', VarRegister = Some r, AliveUntil = alive\<rparr>"

definition exampleG :: func where
  "exampleG = (exampleFunction ''g'' [])
     \<lparr>UsedRegisterNames := [''rdi'', ''rbx'', ''rcx'', ''rdx'']\<rparr>"

text \<open>A state in which \<open>rdi\<close> holds a variable last read before the end of the current
  instruction (position 10), \<open>rbx\<close> one that is read later, \<open>rcx\<close> one whose last read is
  at position 10 itself, and \<open>rdx\<close> is free.\<close>

definition exampleBusyState :: state where
  "exampleBusyState = exampleState
     \<lparr>registers := exampleRegisters\<lparr>users :=
        [''rdi'' \<mapsto> UserVariable (exampleVariable ''c'' ''rdi'' 5),
         ''rbx'' \<mapsto> UserVariable (exampleVariable ''a'' ''rbx'' 20),
         ''rcx'' \<mapsto> UserVariable (exampleVariable ''b'' ''rcx'' 10)]\<rparr>,
      environment := map_of [(''f'', exampleF), (''g'', exampleG)]\<rparr>"

text \<open>A state in which only \<open>rcx\<close> is in use, by a variable whose last read is at
  the end position of the current instruction.\<close>

definition exampleBoundaryState :: state where
  "exampleBoundaryState = exampleState
     \<lparr>registers := exampleRegisters\<lparr>users :=
        [''rcx'' \<mapsto> UserVariable (exampleVariable ''b'' ''rcx'' 10)]\<rparr>,
      environment := map_of [(''f'', exampleF), (''g'', exampleG)]\<rparr>"

definition exampleH :: func where
  "exampleH = exampleFunction ''h'' [exampleParameter ''x'' ''Int64'', exampleParameter ''y'' ''Int64'']"

text \<open>A build whose results are received in the order \<open>b\<close>, \<open>main\<close>, \<open>a\<close>.\<close>

definition exampleBuildExternals :: "instruction list build_externals" where
  "exampleBuildExternals =
     \<lparr>Finalize = (\<lambda>a. a), Verify = (\<lambda>code. []),
      WriteToFile = (\<lambda>code filePath. None), Chmod = (\<lambda>filePath mode. None)\<rparr>"

definition exampleCompiled :: "string \<Rightarrow> nat \<Rightarrow> func" where
  "exampleCompiled n c = (exampleFunction n [])
     \<lparr>CallCount := c, FuncAssembler := [Label n, Instruction ''ret'' NoOperand]\<rparr>"

definition exampleBuild :: Build where
  "exampleBuild =
     \<lparr>Path = ''/p'', ExecutablePath = ''/p/p'', ExecutableName = ''p'',
      Functions = map_of [(''main'', exampleFunction ''main'' []),
        (''a'', exampleFunction ''a'' []), (''b'', exampleFunction ''b'' [])],
      WriteExecutable = True, Optimize = False, Verbose = False\<rparr>"

text \<open>Stand-ins for the parts that the for-loop code uses: a number literal is loaded
  into the register, which becomes used by the expression; an assignment binds a new
  variable to a free register.\<close>

definition exampleNumber :: "string \<Rightarrow> nat" where
  "exampleNumber str = foldl (\<lambda>n c. 10 * n + (of_char c - 48)) 0 str"

definition exampleTokensToRegister :: "state \<Rightarrow> token list \<Rightarrow> string \<Rightarrow> state result" where
  "exampleTokensToRegister s ts r =
     (case ts of
        [t] \<Rightarrow>
          if Kind t = Number
          then Ok (s\<lparr>assembler := MoveRegisterNumber r (of_nat (exampleNumber (TokenText t)))
                       (assembler s),
                    registers := (registers s)\<lparr>users := (users (registers s))
                       (r \<mapsto> UserExpression (Expression t [] (Some r) None))\<rparr>\<rparr>)
          else Error (UnknownIdentifier (TokenText t) [])
      | _ \<Rightarrow> Error (OtherError ''UnknownExpression''))"

definition exampleAssignVariable :: "state \<Rightarrow> token list \<Rightarrow> (variable \<times> state) result" where
  "exampleAssignVariable s ts =
     (case ts of
        name # operator # val \<Rightarrow>
          (case FindFreeRegister (registers s) of
             None \<Rightarrow> Error ExceededMaxVariables
           | Some r \<Rightarrow>
               (case exampleTokensToRegister s val r of
                  Ok s1 \<Rightarrow> Ok (\<lparr>VarName = TokenText name, VarType = Type ''Int64'',
                                 VarRegister = Some r, AliveUntil = 0\<rparr>, s1)
                | Error e \<Rightarrow> Error e
                | Panic p \<Rightarrow> Panic p))
      | _ \<Rightarrow> Panic IndexOutOfRange)"

definition exampleForExternals :: for_externals where
  "exampleForExternals =
     \<lparr>Expect = (\<lambda>s k. s),
      TokensToRegister = exampleTokensToRegister,
      AssignVariable = exampleAssignVariable,
      PopScope = (\<lambda>s. Ok (s\<lparr>scopes := tl (scopes s)\<rparr>))\<rparr>"

definition exampleFor :: "token list" where
  "exampleFor = [MkToken Keyword ''for'', MkToken Number ''0'', MkToken RangeKind ''..'',
                 MkToken Number ''0'']"


section \<open>Unfolding rules for evaluation\<close>

lemmas example_defs =
  exampleState_def exampleExternals_def exampleRegisters_def exampleFunction_def
  exampleParameter_def exampleExpressionToRegister_def examplePrint_def exampleStore_def
  exampleSyscall_def exampleF_def leaf_def callOf_def

lemmas call_defs =
  CallExpression_def lookupFunction_def markSideEffects_def callFunction_def BeforeCall_def
  AfterCall_def claimReturnValue_def callPrint_def callStore_def printLn_def
  moveParameter_def alreadyInRegister_def relocate_def claimRegister_def
  ByName_def IsFree_def User_def Use_def Free_def FindFree_def IsLeaf_def HasReturnValue_def
  BuiltinPrint_def BuiltinStore_def BuiltinSyscall_def

lemmas assembler_defs =
  Syscall_def Call_def Jump_def JumpIfEqual_def IncreaseRegister_def PushRegister_def
  PopRegister_def MoveRegisterRegister_def MoveRegisterNumber_def StoreNumber_def
  MoveRegisterAddress_def CompareRegisterRegister_def AddLabel_def
  doNone_def doLabel_def doRegister1_def doRegister2_def doRegisterNumber_def
  doRegisterAddress_def doMemoryNumber_def
  MOV_def CMP_def SYSCALL_def CALL_def JMP_def JE_def INC_def PUSH_def POP_def STORE_def

lemmas for_defs =
  ForStart_def ForEnd_def rangeStart_def CompareExpression_def FindFreeRegister_def
  FindFree_def Free_def Push_def exampleForExternals_def exampleTokensToRegister_def
  exampleAssignVariable_def exampleNumber_def exampleFor_def

section \<open>Frame lemmas\<close>

lemma markSideEffects_frame [simp]:
  "assembler (markSideEffects f s) = assembler s"
  "strings (markSideEffects f s) = strings s"
  "registers (markSideEffects f s) = registers s"
  "scopes (markSideEffects f s) = scopes s"
  "environment (markSideEffects f s) = environment s"
  "InstructionEndPosition (markSideEffects f s) = InstructionEndPosition s"
  by (simp_all add: markSideEffects_def Let_def)

section \<open>The builtin \<open>print\<close>\<close>

lemma printLn_emits:
  assumes "4 \<le> length (SyscallList (registers s))"
  shows "printLn x str s =
     Ok (s\<lparr>strings := snd (AddString x (strings s) (str @ [CHR 0x0A])),
           assembler := assembler s @
             [Instruction MOV (RegisterNumber (SyscallList (registers s) ! 0) (of_nat Write)),
              Instruction MOV (RegisterNumber (SyscallList (registers s) ! 1) 1),
              Instruction MOV (RegisterAddress (SyscallList (registers s) ! 2)
                 (fst (AddString x (strings s) (str @ [CHR 0x0A])))),
              Instruction MOV (RegisterNumber (SyscallList (registers s) ! 3)
                 (of_nat (length str + 1))),
              Instruction SYSCALL NoOperand]\<rparr>)"
  using assms
  by (simp add: printLn_def Let_def split_beta Syscall_def MoveRegisterNumber_def
      MoveRegisterAddress_def doNone_def doRegisterNumber_def doRegisterAddress_def)

text \<open>
  C7. A call \<open>print(s)\<close> with a text literal \<open>s\<close> that resolves to the builtin appends a
  newline to \<open>s\<close>, interns that string, and appends exactly five instructions to the
  assembler: the first four syscall registers are loaded with the number of \<open>write\<close>,
  with 1, with the address of the interned string and with \<open>len(s) + 1\<close>, and a
  \<open>syscall\<close> follows. Nothing else of the assembler, the string pool or the register
  file changes.
\<close>

theorem print_emits_write:
  assumes resolved:
      "lookupFunction x s (PolymorphName x (TokenText (Token expr)) (length (Children expr)))
         = (Some function, True)"
      "PolymorphName x (TokenText (Token expr)) (length (Children expr)) = BuiltinPrint"
    and count: "NoParameterCheck function \<or> length (Parameters function) = 1"
    and literal: "Children expr = [Expression (MkToken Text str) cs r t]"
    and regs: "4 \<le> length (SyscallList (registers s))"
  shows "CallExpression x expr s =
     Ok (expr, (markSideEffects function s)
         \<lparr>strings := snd (AddString x (strings s) (str @ [CHR 0x0A])),
          assembler := assembler s @
            [Instruction MOV (RegisterNumber (SyscallList (registers s) ! 0) (of_nat Write)),
             Instruction MOV (RegisterNumber (SyscallList (registers s) ! 1) 1),
             Instruction MOV (RegisterAddress (SyscallList (registers s) ! 2)
                (fst (AddString x (strings s) (str @ [CHR 0x0A])))),
             Instruction MOV (RegisterNumber (SyscallList (registers s) ! 3)
                (of_nat (length str + 1))),
             Instruction SYSCALL NoOperand]\<rparr>)"
proof -
  have "4 \<le> length (SyscallList (registers (markSideEffects function s)))"
    using regs by simp
  from printLn_emits [OF this, of x str]
  have p: "printLn x str (markSideEffects function s) = Ok ((markSideEffects function s)
         \<lparr>strings := snd (AddString x (strings s) (str @ [CHR 0x0A])),
          assembler := assembler s @
            [Instruction MOV (RegisterNumber (SyscallList (registers s) ! 0) (of_nat Write)),
             Instruction MOV (RegisterNumber (SyscallList (registers s) ! 1) 1),
             Instruction MOV (RegisterAddress (SyscallList (registers s) ! 2)
                (fst (AddString x (strings s) (str @ [CHR 0x0A])))),
             Instruction MOV (RegisterNumber (SyscallList (registers s) ! 3)
                (of_nat (length str + 1))),
             Instruction SYSCALL NoOperand]\<rparr>)"
    by simp
  show ?thesis
    using resolved count literal
    by (auto simp add: CallExpression_def Let_def callPrint_def p)
qed

text \<open>The theorem at \<open>print("")\<close>: the length loaded into the fourth register is 1.\<close>

theorem print_emits_write_witness:
  "\<exists>s1. CallExpression exampleExternals (callOf ''print'' [leaf Text '''']) exampleState
          = Ok (callOf ''print'' [leaf Text ''''], s1)
      \<and> assembler s1 =
          [Instruction ''mov'' (RegisterNumber ''rax'' 1),
           Instruction ''mov'' (RegisterNumber ''rdi'' 1),
           Instruction ''mov'' (RegisterAddress ''rsi'' 0),
           Instruction ''mov'' (RegisterNumber ''rdx'' 1),
           Instruction ''syscall'' NoOperand]
      \<and> strings s1 = [[CHR 0x0A]]"
  using print_emits_write [of exampleExternals exampleState "callOf ''print'' [leaf Text '''']"
      examplePrint "''''" "[]" None None]
  by (simp add: exampleState_def exampleExternals_def callOf_def leaf_def BuiltinPrint_def
      examplePrint_def exampleFunction_def exampleRegisters_def MOV_def SYSCALL_def Write_def
      lookupFunction_def)

section \<open>The parameter count check\<close>

lemma relocate_no_ParameterCount:
  "relocate x r s = Error e \<Longrightarrow> e \<noteq> ParameterCount n g q"
  by (auto simp add: relocate_def Let_def split: option.splits user.splits if_splits)

lemma moveParameter_no_ParameterCount:
  assumes "neverParameterCount x" and "moveParameter x f regs i p s = Error e"
  shows "e \<noteq> ParameterCount n g q"
  using assms
  by (auto simp add: moveParameter_def Let_def neverParameterCount_def
      split: option.splits result.splits prod.splits if_splits
      dest: relocate_no_ParameterCount)

lemma moveParameters_no_ParameterCount:
  assumes "neverParameterCount x"
  shows "moveParameters x f regs i ps s = Error e \<Longrightarrow> e \<noteq> ParameterCount n g q"
proof (induction ps arbitrary: i s)
  case Nil
  then show ?case by simp
next
  case (Cons p ps)
  then show ?case
    using moveParameter_no_ParameterCount [OF assms, of f regs i p s]
    by (auto split: result.splits)
qed

lemma determinePushRegisters_no_error:
  "determinePushRegisters x s ns acc \<noteq> Error e"
  by (induction ns arbitrary: acc) (simp_all split: option.splits user.splits)

lemma BeforeCall_no_ParameterCount:
  assumes "neverParameterCount x" and "BeforeCall x f ps s = Error e"
  shows "e \<noteq> ParameterCount n g q"
  using assms(2) determinePushRegisters_no_error
  by (auto simp add: BeforeCall_def Let_def split: result.splits
      dest: moveParameters_no_ParameterCount [OF assms(1)])

lemma claimReturnValue_no_ParameterCount:
  "claimReturnValue f e s = Error err \<Longrightarrow> err \<noteq> ParameterCount n g q"
  by (auto simp add: claimReturnValue_def Use_def Let_def split: list.splits result.splits if_splits)

lemma callFunction_no_ParameterCount:
  assumes "neverParameterCount x" and "callFunction x fn f e s = Error err"
  shows "err \<noteq> ParameterCount n g q"
  using assms(2)
  by (auto simp add: callFunction_def Let_def split: result.splits prod.splits
      dest: BeforeCall_no_ParameterCount [OF assms(1)] claimReturnValue_no_ParameterCount)

lemma callPrint_no_ParameterCount:
  "callPrint x f e s = Error err \<Longrightarrow> err \<noteq> ParameterCount n g q"
  by (auto simp add: callPrint_def printLn_def Let_def split_beta
      split: list.splits result.splits if_splits)

lemma callStore_no_ParameterCount:
  "callStore x e s = Error err \<Longrightarrow> err \<noteq> ParameterCount n g q"
  by (auto simp add: callStore_def Let_def split_beta split: option.splits if_splits)


lemma neverParameterCount_example: "neverParameterCount exampleExternals"
  by (simp add: neverParameterCount_def exampleExternals_def exampleExpressionToRegister_def)


section \<open>The builtin \<open>store\<close>\<close>

text \<open>
  C9. A call that resolves to the builtin \<open>store\<close> and whose first argument names a
  variable that no enclosing scope binds does not return an \<open>UnknownIdentifier\<close> error:
  the nil result of the scope lookup is dereferenced and the compilation panics.
\<close>

theorem store_unbound_variable_panics:
  assumes "lookupFunction x s (PolymorphName x (TokenText (Token expr)) (length (Children expr)))
             = (Some function, True)"
    and "PolymorphName x (TokenText (Token expr)) (length (Children expr)) = BuiltinStore"
    and "NoParameterCheck function \<or> length (Children expr) = length (Parameters function)"
    and "4 \<le> length (Children expr)"
    and "Get (scopes s) (TokenText (Token (Children expr ! 0))) = None"
  shows "CallExpression x expr s = Panic NilDereference
       \<and> (\<forall>n sg. CallExpression x expr s \<noteq> Error (UnknownIdentifier n sg))"
  using assms
  by (auto simp add: CallExpression_def Let_def callStore_def BuiltinStore_def BuiltinPrint_def)

theorem store_unbound_variable_panics_witness:
  "CallExpression exampleExternals
      (callOf ''store'' [leaf Identifier ''x'', leaf Number ''0'', leaf Number ''1'',
         leaf Number ''65'']) exampleState = Panic NilDereference"
  using store_unbound_variable_panics [of exampleExternals exampleState
      "callOf ''store'' [leaf Identifier ''x'', leaf Number ''0'', leaf Number ''1'',
         leaf Number ''65'']" exampleStore]
  by (simp add: lookupFunction_def example_defs BuiltinStore_def)

section \<open>Saving registers around a call\<close>

lemma savedAcrossCall_free:
  "users (registers s) r = None \<Longrightarrow> \<not> savedAcrossCall s r"
  by (simp add: savedAcrossCall_def)

lemma savedAcrossCall_variable:
  "users (registers s) r = Some (UserVariable v)
     \<Longrightarrow> savedAcrossCall s r = (InstructionEndPosition s \<le> AliveUntil v)"
  by (simp add: savedAcrossCall_def)

lemma savedAcrossCall_cong:
  "registers s1 = registers s \<Longrightarrow> InstructionEndPosition s1 = InstructionEndPosition s
     \<Longrightarrow> savedAcrossCall s1 = savedAcrossCall s"
  by (rule ext) (simp add: savedAcrossCall_def split: option.splits user.splits)

lemma determinePushRegisters_filter:
  "determinePushRegisters x s ns acc = Ok rs \<Longrightarrow> rs = acc @ filter (savedAcrossCall s) ns"
proof (induction ns arbitrary: acc)
  case Nil
  then show ?case by simp
next
  case (Cons n ns)
  from Cons.prems have inAll: "ByName (AllList (registers s)) n = Some n"
    by (auto simp add: ByName_def split: if_splits)
  show ?case
  proof (cases "users (registers s) n")
    case None
    with Cons.prems inAll have "determinePushRegisters x s ns acc = Ok rs"
      by (simp add: IsFree_def)
    from Cons.IH [OF this] savedAcrossCall_free [OF None] show ?thesis by simp
  next
    case (Some u)
    with Cons.prems inAll obtain v where v: "u = UserVariable v"
      by (cases u) (auto simp add: IsFree_def User_def)
    show ?thesis
    proof (cases "AliveUntil v < InstructionEndPosition s")
      case True
      with Cons.prems inAll Some v have "determinePushRegisters x s ns acc = Ok rs"
        by (simp add: IsFree_def User_def)
      from Cons.IH [OF this] savedAcrossCall_variable [of s n v] Some v True
      show ?thesis by simp
    next
      case False
      with Cons.prems inAll Some v have "determinePushRegisters x s ns (acc @ [n]) = Ok rs"
        by (simp add: IsFree_def User_def)
      from Cons.IH [OF this] savedAcrossCall_variable [of s n v] Some v False
      show ?thesis by simp
    qed
  qed
qed

lemma foldl_PushRegister:
  "foldl (\<lambda>a reg. PushRegister reg a) a rs = a @ map (\<lambda>r. Instruction PUSH (Register1 r)) rs"
  by (induction rs arbitrary: a) (simp_all add: PushRegister_def doRegister1_def)

lemma foldl_PopRegister:
  "foldl (\<lambda>a reg. PopRegister reg a) a rs = a @ map (\<lambda>r. Instruction POP (Register1 r)) rs"
  by (induction rs arbitrary: a) (simp_all add: PopRegister_def doRegister1_def)

lemma foldl_Free_frame [simp]:
  "AllList (foldl (\<lambda>rs r. Free r rs) regs l) = AllList regs"
  "ReturnValueList (foldl (\<lambda>rs r. Free r rs) regs l) = ReturnValueList regs"
  by (induction l arbitrary: regs) (simp_all add: Free_def)

lemma AfterCall_assembler:
  "assembler (AfterCall f pushed regs s) =
     assembler s @ map (\<lambda>r. Instruction POP (Register1 r)) (rev pushed)"
  by (simp add: AfterCall_def Let_def foldl_PopRegister)

lemma relocate_appends:
  assumes "appendOnly x" and "relocate x r s = Ok s1"
  shows "\<exists>c. assembler s1 = assembler s @ c"
proof (cases "IsFree (registers s) r")
  case True
  then show ?thesis using assms(2) by (simp add: relocate_def)
next
  case False
  then obtain fr v where fr: "FindFree (registers s) (GeneralList (registers s)) = Some fr"
    and v: "User (registers s) r = Some (UserVariable v)"
    and s1: "s1 = (SetRegister x (s\<lparr>assembler := MoveRegisterRegister fr r (assembler s)\<rparr>) v fr)
                \<lparr>registers := Free r (registers (SetRegister x
                    (s\<lparr>assembler := MoveRegisterRegister fr r (assembler s)\<rparr>) v fr))\<rparr>"
    using assms(2)
    by (auto simp add: relocate_def Let_def split: option.splits user.splits)
  obtain c where "assembler (SetRegister x (s\<lparr>assembler := MoveRegisterRegister fr r (assembler s)\<rparr>) v fr)
      = MoveRegisterRegister fr r (assembler s) @ c"
    using assms(1) unfolding appendOnly_def
    by (metis (no_types, lifting) state.select_convs(1) state.surjective state.update_convs(1))
  moreover have "\<exists>d. MoveRegisterRegister fr r (assembler s) = assembler s @ d"
    by (simp add: MoveRegisterRegister_def doRegister2_def)
  ultimately show ?thesis using s1 by auto
qed

lemma claimRegister_assembler [simp]:
  "assembler (claimRegister r d s) = assembler s"
  by (simp add: claimRegister_def Use_def)

lemma moveParameter_appends:
  assumes "appendOnly x" and "moveParameter x f regs i p s = Ok s1"
  shows "\<exists>c. assembler s1 = assembler s @ c"
proof (cases "alreadyInRegister s p (regs ! i)")
  case (Some v)
  then have "s1 = snd (UseVariable x s v)"
    using assms(2) by (simp add: moveParameter_def Let_def split: if_splits)
  then show ?thesis using assms(1) unfolding appendOnly_def by blast
next
  case None
  then obtain sr t where sr: "relocate x (regs ! i) s = Ok sr"
    and e: "ExpressionToRegister x (claimRegister (regs ! i) (Parameters f ! i) sr) p (regs ! i)
              = Ok (t, s1)"
    using assms(2)
    by (auto simp add: moveParameter_def Let_def split: if_splits result.splits prod.splits)
  from relocate_appends [OF assms(1) sr] obtain c where c: "assembler sr = assembler s @ c" ..
  from e assms(1) obtain d where
    "assembler s1 = assembler (claimRegister (regs ! i) (Parameters f ! i) sr) @ d"
    unfolding appendOnly_def by blast
  with c show ?thesis by simp
qed

lemma moveParameters_appends:
  assumes "appendOnly x"
  shows "moveParameters x f regs i ps s = Ok s1 \<Longrightarrow> \<exists>c. assembler s1 = assembler s @ c"
proof (induction ps arbitrary: i s)
  case Nil
  then show ?case by simp
next
  case (Cons p ps)
  then obtain sm where sm: "moveParameter x f regs i p s = Ok sm"
    and rest: "moveParameters x f regs (Suc i) ps sm = Ok s1"
    by (auto split: result.splits)
  from moveParameter_appends [OF assms sm] obtain c where "assembler sm = assembler s @ c" ..
  moreover from Cons.IH [OF rest] obtain d where "assembler s1 = assembler sm @ d" ..
  ultimately show ?case by simp
qed

lemma claimReturnValue_appends:
  assumes "claimReturnValue f e s = Ok (e1, s1)"
  shows "\<exists>c. assembler s1 = assembler s @ c"
  using assms
  by (auto simp add: claimReturnValue_def Use_def Let_def Free_def MoveRegisterRegister_def
      doRegister2_def split: list.splits result.splits if_splits option.splits)


lemma BeforeCall_shape:
  assumes "BeforeCall x f ps s = Ok (pushRegisters, callRegisters, sm)"
  shows "pushRegisters = filter (savedAcrossCall s) (UsedRegisterNames f)
       \<and> callRegisters = (if Name f = BuiltinSyscall then SyscallList (registers s)
                           else CallList (registers s))
       \<and> moveParameters x f callRegisters 0 ps
            (s\<lparr>events := events s @ [Wait (Name f)],
               assembler := assembler s @
                 map (\<lambda>r. Instruction PUSH (Register1 r)) pushRegisters\<rparr>) = Ok sm"
proof -
  let ?s1 = "s\<lparr>events := events s @ [Wait (Name f)]\<rparr>"
  from assms obtain rs where d: "determinePushRegisters x ?s1 (UsedRegisterNames f) [] = Ok rs"
    by (auto simp add: BeforeCall_def Let_def split: result.splits)
  have same: "savedAcrossCall ?s1 = savedAcrossCall s"
    by (rule savedAcrossCall_cong) simp_all
  from determinePushRegisters_filter [OF d] same
  have rs: "rs = filter (savedAcrossCall s) (UsedRegisterNames f)" by simp
  from assms d show ?thesis
    by (auto simp add: BeforeCall_def Let_def foldl_PushRegister rs split: result.splits)
qed


lemma appendOnly_example: "appendOnly exampleExternals"
  by (auto simp add: appendOnly_def exampleExternals_def exampleExpressionToRegister_def)



section \<open>The order of the wait and the side-effect mark\<close>

text \<open>
  C2. The call sequence does not start with the wait: \<open>CallExpression\<close> loads the callee's
  side-effect counter and increments the caller's before \<open>BeforeCall\<close> waits for the
  callee's compile task. For a call \<open>f(1)\<close> of a user function whose counter is positive
  when it is loaded, the log of the compilation shows the load and the increment first
  and the wait after them.
\<close>

theorem side_effects_marked_before_wait:
  "\<exists>e1 s1. CallExpression exampleExternals (callOf ''f'' [leaf Number ''1'']) exampleState
       = Ok (e1, s1)
     \<and> events s1 = [LoadSideEffects ''f'', AddSideEffects, Wait ''f'']
     \<and> SideEffects (stateFunction s1) = 1
     \<and> assembler s1 = [Instruction ''call'' (LabelOperand ''f'')]"
  by (simp add: example_defs call_defs assembler_defs Let_def)

section \<open>The type check of the arguments\<close>

lemma moveParameters_append:
  "moveParameters x f regs i (ps @ qs) s =
     (case moveParameters x f regs i ps s of
        Ok s1 \<Rightarrow> moveParameters x f regs (i + length ps) qs s1
      | Error e \<Rightarrow> Error e
      | Panic p \<Rightarrow> Panic p)"
  by (induction ps arbitrary: i s) (simp_all split: result.splits)

lemma moveParameters_at:
  assumes "i < length ps" and "moveParameters x f regs 0 (take i ps) s = Ok si"
  shows "moveParameters x f regs 0 ps s =
     (case moveParameter x f regs i (ps ! i) si of
        Ok s1 \<Rightarrow> moveParameters x f regs (Suc i) (drop (Suc i) ps) s1
      | Error e \<Rightarrow> Error e
      | Panic p \<Rightarrow> Panic p)"
proof -
  have "ps = take i ps @ (ps ! i) # drop (Suc i) ps"
    using assms(1) by (simp add: id_take_nth_drop)
  then have "moveParameters x f regs 0 ps s
      = moveParameters x f regs 0 (take i ps @ (ps ! i) # drop (Suc i) ps) s"
    by simp
  also have "\<dots> = moveParameters x f regs i ((ps ! i) # drop (Suc i) ps) si"
    using assms by (simp add: moveParameters_append min_def)
  finally show ?thesis by simp
qed

lemma moveParameters_take_Suc:
  assumes "i < length ps" and "moveParameters x f regs 0 (take i ps) s = Ok si"
  shows "moveParameters x f regs 0 (take (Suc i) ps) s = moveParameter x f regs i (ps ! i) si"
proof -
  have "take (Suc i) ps = take i ps @ [ps ! i]"
    using assms(1) by (simp add: take_Suc_conv_app_nth)
  then show ?thesis
    using assms by (simp add: moveParameters_append min_def split: result.splits)
qed

lemma moveParameter_checks_type:
  assumes "alreadyInRegister s p (regs ! i) = None"
    and "relocate x (regs ! i) s = Ok sr"
    and "i < length regs" and "i < length (Parameters f)"
    and "ExpressionToRegister x (claimRegister (regs ! i) (Parameters f ! i) sr) p (regs ! i)
           = Ok (typ, se)"
  shows "moveParameter x f regs i p s =
     (if \<not> NoParameterCheck f \<and> typ \<noteq> VarType (Parameters f ! i)
      then Error (InvalidType (TypeString typ) (TypeString (VarType (Parameters f ! i)))
             (VarName (Parameters f ! i)))
      else Ok se)"
  using assms by (simp add: moveParameter_def Let_def)

lemma relocate_frees:
  "relocate x r s = Ok sr \<Longrightarrow> users (registers sr) r = None"
  by (auto simp add: relocate_def Let_def IsFree_def Free_def
      split: if_splits option.splits user.splits)

text \<open>
  C6 (as amended). Let the callee not opt out of parameter checking, and let the loop of
  \<open>BeforeCall\<close> have moved the first \<open>i\<close> arguments. If argument \<open>i\<close> is not a variable
  that already lives in its call register, the register is made free (by relocating
  its user), is claimed for the declared parameter, and the argument expression is
  evaluated into it. If the resulting type differs from the declared type of
  parameter \<open>i\<close>, \<open>BeforeCall\<close> fails with \<open>InvalidType\<close> carrying the type found, the
  type expected and the parameter's name; otherwise the loop goes on with the next
  argument.
\<close>

theorem argument_type_checked:
  assumes check: "\<not> NoParameterCheck function"
    and saved: "determinePushRegisters x (s\<lparr>events := events s @ [Wait (Name function)]\<rparr>)
                  (UsedRegisterNames function) [] = Ok pushRegisters"
    and regs: "callRegisters = (if Name function = BuiltinSyscall then SyscallList (registers s)
                                else CallList (registers s))"
    and i: "i < length parameters" "i < length callRegisters" "i < length (Parameters function)"
    and before: "moveParameters x function callRegisters 0 (take i parameters)
                   (s\<lparr>events := events s @ [Wait (Name function)],
                      assembler := foldl (\<lambda>a reg. PushRegister reg a) (assembler s)
                        pushRegisters\<rparr>) = Ok si"
    and moved: "alreadyInRegister si (parameters ! i) (callRegisters ! i) = None"
    and relocated: "relocate x (callRegisters ! i) si = Ok sr"
    and evaluated: "ExpressionToRegister x
                      (sr\<lparr>registers := (registers sr)\<lparr>users := (users (registers sr))
                          (callRegisters ! i \<mapsto> UserVariable (Parameters function ! i))\<rparr>\<rparr>)
                      (parameters ! i) (callRegisters ! i) = Ok (typ, se)"
  shows "(typ \<noteq> VarType (Parameters function ! i) \<longrightarrow>
            BeforeCall x function parameters s =
              Error (InvalidType (TypeString typ)
                       (TypeString (VarType (Parameters function ! i)))
                       (VarName (Parameters function ! i))))
       \<and> (typ = VarType (Parameters function ! i) \<longrightarrow>
            moveParameters x function callRegisters 0 (take (Suc i) parameters)
                   (s\<lparr>events := events s @ [Wait (Name function)],
                      assembler := foldl (\<lambda>a reg. PushRegister reg a) (assembler s)
                        pushRegisters\<rparr>) = Ok se)"
proof -
  let ?start = "s\<lparr>events := events s @ [Wait (Name function)],
                  assembler := foldl (\<lambda>a reg. PushRegister reg a) (assembler s) pushRegisters\<rparr>"
  have claimed: "claimRegister (callRegisters ! i) (Parameters function ! i) sr
      = sr\<lparr>registers := (registers sr)\<lparr>users := (users (registers sr))
            (callRegisters ! i \<mapsto> UserVariable (Parameters function ! i))\<rparr>\<rparr>"
    using relocate_frees [OF relocated] by (simp add: claimRegister_def Use_def)
  have step: "moveParameter x function callRegisters i (parameters ! i) si =
     (if typ \<noteq> VarType (Parameters function ! i)
      then Error (InvalidType (TypeString typ) (TypeString (VarType (Parameters function ! i)))
             (VarName (Parameters function ! i)))
      else Ok se)"
    using moveParameter_checks_type [OF moved relocated i(2) i(3), of "typ" se] evaluated check
    by (simp add: claimed)
  have loop: "typ \<noteq> VarType (Parameters function ! i) \<Longrightarrow>
      moveParameters x function callRegisters 0 parameters ?start =
        Error (InvalidType (TypeString typ) (TypeString (VarType (Parameters function ! i)))
             (VarName (Parameters function ! i)))"
    using moveParameters_at [OF i(1) before] step by simp
  have bc: "BeforeCall x function parameters s =
      (case moveParameters x function callRegisters 0 parameters ?start of
         Error e \<Rightarrow> Error e | Panic p \<Rightarrow> Panic p
       | Ok s3 \<Rightarrow> Ok (pushRegisters, callRegisters, s3))"
    using saved regs by (auto simp add: BeforeCall_def Let_def split: result.splits)
  show ?thesis
    using loop bc moveParameters_take_Suc [OF i(1) before] step by simp
qed

theorem argument_type_checked_witness:
  "BeforeCall exampleExternals exampleH [leaf Number ''1'', leaf Text ''hi''] exampleState
     = Error (InvalidType ''Text'' ''Int64'' ''y'')"
proof -
  let ?start = "exampleState\<lparr>events := [Wait ''h''], assembler := []\<rparr>"
  let ?si = "?start\<lparr>registers := exampleRegisters\<lparr>users :=
                [''rdi'' \<mapsto> UserVariable (exampleParameter ''x'' ''Int64'')]\<rparr>\<rparr>"
  have check: "\<not> NoParameterCheck exampleH"
    by (simp add: exampleH_def exampleFunction_def)
  have saved: "determinePushRegisters exampleExternals
      (exampleState\<lparr>events := events exampleState @ [Wait (Name exampleH)]\<rparr>)
      (UsedRegisterNames exampleH) [] = Ok []"
    by (simp add: exampleH_def exampleFunction_def)
  have regs: "[''rdi'', ''rsi'', ''rdx''] =
      (if Name exampleH = BuiltinSyscall then SyscallList (registers exampleState)
       else CallList (registers exampleState))"
    by (simp add: exampleH_def example_defs BuiltinSyscall_def)
  have i: "1 < length [leaf Number ''1'', leaf Text ''hi'']"
      "1 < length [''rdi'', ''rsi'', ''rdx'']" "1 < length (Parameters exampleH)"
    by (simp_all add: exampleH_def exampleFunction_def)
  have before: "moveParameters exampleExternals exampleH [''rdi'', ''rsi'', ''rdx''] 0
      (take 1 [leaf Number ''1'', leaf Text ''hi''])
      (exampleState\<lparr>events := events exampleState @ [Wait (Name exampleH)],
         assembler := foldl (\<lambda>a reg. PushRegister reg a) (assembler exampleState) []\<rparr>)
      = Ok ?si"
    by (simp add: exampleH_def example_defs call_defs Let_def)
  have moved: "alreadyInRegister ?si ([leaf Number ''1'', leaf Text ''hi''] ! 1)
      ([''rdi'', ''rsi'', ''rdx''] ! 1) = None"
    by (simp add: alreadyInRegister_def leaf_def)
  have relocated: "relocate exampleExternals ([''rdi'', ''rsi'', ''rdx''] ! 1) ?si = Ok ?si"
    by (simp add: relocate_def IsFree_def example_defs)
  have evaluated: "ExpressionToRegister exampleExternals
      (?si\<lparr>registers := (registers ?si)\<lparr>users := (users (registers ?si))
          ([''rdi'', ''rsi'', ''rdx''] ! 1 \<mapsto> UserVariable (Parameters exampleH ! 1))\<rparr>\<rparr>)
      ([leaf Number ''1'', leaf Text ''hi''] ! 1) ([''rdi'', ''rsi'', ''rdx''] ! 1)
      = Ok (Type ''Text'',
          ?si\<lparr>registers := (registers ?si)\<lparr>users := (users (registers ?si))
          ([''rdi'', ''rsi'', ''rdx''] ! 1 \<mapsto> UserVariable (Parameters exampleH ! 1))\<rparr>\<rparr>)"
    by (simp add: exampleExternals_def exampleExpressionToRegister_def leaf_def)
  from argument_type_checked [OF check saved regs i before moved relocated evaluated]
  show ?thesis
    by (simp add: exampleH_def exampleFunction_def exampleParameter_def)
qed

text \<open>The claim as stated fails for a callee that opts out of parameter checking: with
  the right number of arguments, an argument of type \<open>Text\<close> for a parameter declared
  \<open>Int64\<close> compiles without an error.\<close>

theorem opt_out_argument_type_unchecked:
  "length [leaf Number ''1'', leaf Number ''1'', leaf Text ''Hello Syscalls'', leaf Number ''14'']
      = length (Parameters exampleSyscall)
   \<and> (\<forall>s r. ExpressionToRegister exampleExternals s (leaf Text ''Hello Syscalls'') r
          = Ok (Type ''Text'', s))
   \<and> VarType (Parameters exampleSyscall ! 2) = Type ''Int64''
   \<and> (\<exists>e1 s1. CallExpression exampleExternals
          (callOf ''syscall'' [leaf Number ''1'', leaf Number ''1'',
             leaf Text ''Hello Syscalls'', leaf Number ''14'']) exampleState = Ok (e1, s1))"
  by (simp add: example_defs call_defs assembler_defs Let_def)

section \<open>The functions of the executable\<close>

lemma mergeUsed_filter:
  "mergeUsed bx fs code =
     code @ map (\<lambda>f. AsmMerge (Finalize bx (FuncAssembler f))) (filter (\<lambda>f. 0 < CallCount f) fs)"
  by (induction fs arbitrary: code) simp_all



section \<open>The header of a for statement\<close>

lemma Index_bounds: "Index ts k = -1 \<or> 0 \<le> Index ts k"
  by (induction ts) (auto simp add: Let_def)

lemma Index_none: "(Index ts k = -1) = (k \<notin> Kind ` set ts)"
proof (induction ts)
  case Nil
  show ?case by simp
next
  case (Cons t ts)
  with Index_bounds [of ts k] show ?case by (auto simp add: Let_def)
qed

lemma Index_first:
  assumes "k \<notin> Kind ` set pre" and "Kind t = k"
  shows "Index (pre @ t # post) k = int (length pre)"
  using assms by (induction pre) (auto simp add: Let_def)

text \<open>
  C8 (as amended). For a for statement header: if the tokens after \<open>for\<close> hold no \<open>..\<close>
  token, \<open>ForStart\<close> fails with \<open>MissingRange\<close>. If \<open>..\<close> is the first of them and they
  hold no operator token, it fails with \<open>MissingRangeStart\<close>. If \<open>..\<close> is present, the
  start of the range before it has been compiled without an error, and no token
  follows \<open>..\<close>, it fails with \<open>MissingRangeLimit\<close>.
\<close>

theorem for_header_errors:
  shows "(RangeKind \<notin> Kind ` set expression
            \<longrightarrow> ForStart fx (keyword # expression) s = Error MissingRange)
     \<and> (Kind dots = RangeKind \<and> Operator \<notin> Kind ` set (dots # upperLimit)
            \<longrightarrow> ForStart fx (keyword # dots # upperLimit) s = Error MissingRangeStart)
     \<and> (Kind dots = RangeKind \<and> RangeKind \<notin> Kind ` set start
          \<and> rangeStart fx (start @ [dots]) (int (length start))
               ((Expect fx s Keyword)\<lparr>scopes := Push (scopes (Expect fx s Keyword))\<rparr>)
              = Ok (register, s3)
            \<longrightarrow> ForStart fx (keyword # start @ [dots]) s = Error MissingRangeLimit)"
proof (intro conjI impI)
  assume "RangeKind \<notin> Kind ` set expression"
  then have "Index expression RangeKind = -1" by (simp add: Index_none)
  then show "ForStart fx (keyword # expression) s = Error MissingRange"
    by (simp add: ForStart_def Let_def)
next
  assume a: "Kind dots = RangeKind \<and> Operator \<notin> Kind ` set (dots # upperLimit)"
  then have "Index (dots # upperLimit) RangeKind = 0" by simp
  moreover from a have "Index (dots # upperLimit) Operator = -1"
    unfolding Index_none by blast
  ultimately show "ForStart fx (keyword # dots # upperLimit) s = Error MissingRangeStart"
    by (simp add: ForStart_def Let_def rangeStart_def)
next
  assume a: "Kind dots = RangeKind \<and> RangeKind \<notin> Kind ` set start
          \<and> rangeStart fx (start @ [dots]) (int (length start))
               ((Expect fx s Keyword)\<lparr>scopes := Push (scopes (Expect fx s Keyword))\<rparr>)
              = Ok (register, s3)"
  then have "Index (start @ [dots]) RangeKind = int (length start)"
    using Index_first [of RangeKind start dots "[]"] by simp
  with a show "ForStart fx (keyword # start @ [dots]) s = Error MissingRangeLimit"
    by (simp add: ForStart_def Let_def)
qed

theorem for_header_errors_witness:
  "ForStart exampleForExternals [MkToken Keyword ''for'', MkToken Number ''1'', MkToken Number ''2'']
      exampleState = Error MissingRange
   \<and> ForStart exampleForExternals
        [MkToken Keyword ''for'', MkToken RangeKind ''..'', MkToken Number ''5'']
        exampleState = Error MissingRangeStart
   \<and> ForStart exampleForExternals
        [MkToken Keyword ''for'', MkToken Number ''0'', MkToken RangeKind ''..'']
        exampleState = Error MissingRangeLimit"
proof -
  let ?for = "MkToken Keyword ''for''"
  let ?dots = "MkToken RangeKind ''..''"
  have a: "RangeKind \<notin> Kind ` set [MkToken Number ''1'', MkToken Number ''2'']" by simp
  have b: "Kind ?dots = RangeKind \<and> Operator \<notin> Kind ` set (?dots # [MkToken Number ''5''])"
    by simp
  obtain register s3 where c: "Kind ?dots = RangeKind
      \<and> RangeKind \<notin> Kind ` set [MkToken Number ''0'']
      \<and> rangeStart exampleForExternals ([MkToken Number ''0''] @ [?dots])
           (int (length [MkToken Number ''0'']))
           ((Expect exampleForExternals exampleState Keyword)
              \<lparr>scopes := Push (scopes (Expect exampleForExternals exampleState Keyword))\<rparr>)
          = Ok (register, s3)"
    by (simp add: for_defs example_defs assembler_defs Let_def)
  from for_header_errors [where fx = exampleForExternals and s = exampleState
        and keyword = ?for and expression = "[MkToken Number ''1'', MkToken Number ''2'']"
        and dots = ?dots and upperLimit = "[MkToken Number ''5'']"
        and start = "[MkToken Number ''0'']" and register = register and ?s3.0 = s3] a b c
  show ?thesis by simp
qed

text \<open>The claim as stated fails for headers that nothing follows \<open>..\<close> in: the limit
  is checked last. For \<open>for ..\<close> the error is \<open>MissingRangeStart\<close>, and for \<open>for 1 ..\<close>
  in a state without a free general register it is \<open>ExceededMaxVariables\<close>.\<close>

theorem range_limit_checked_last:
  "(\<forall>fx s. ForStart fx [MkToken Keyword ''for'', MkToken RangeKind ''..''] s
        = Error MissingRangeStart)
   \<and> ForStart exampleForExternals
        [MkToken Keyword ''for'', MkToken Number ''1'', MkToken RangeKind ''..'']
        exampleBusyState = Error ExceededMaxVariables"
  by (simp add: for_defs example_defs exampleBusyState_def Let_def)

section \<open>The code of a for loop\<close>

lemma rangeStart_appends:
  assumes "forExternalsFrame fx" and "rangeStart fx e p s = Ok (r, s1)"
  shows "(\<exists>c. assembler s1 = assembler s @ c) \<and> forLoop s1 = forLoop s"
proof (cases "Index e Operator = -1")
  case True
  with assms(2) obtain reg where "TokensToRegister fx s (take (nat p) e) reg = Ok s1"
    by (auto simp add: rangeStart_def Let_def split: if_splits option.splits result.splits)
  with assms(1) show ?thesis unfolding forExternalsFrame_def by blast
next
  case False
  with assms(2) obtain v where "AssignVariable fx s (take (nat p) e) = Ok (v, s1)"
    by (auto simp add: rangeStart_def Let_def split: result.splits prod.splits)
  with assms(1) show ?thesis unfolding forExternalsFrame_def by blast
qed

lemma CompareExpression_shape:
  assumes "forExternalsFrame fx" and "CompareExpression fx s reg e l = Ok (tmp, s1)"
  shows "\<exists>c t sB sC limitcode. reg = Some c \<and> tmp = Some t
      \<and> sB = s\<lparr>assembler := assembler s @ [Label l]\<rparr>
      \<and> FindFreeRegister (registers s) = Some t
      \<and> TokensToRegister fx sB e t = Ok sC
      \<and> assembler sC = assembler s @ [Label l] @ limitcode
      \<and> s1 = sC\<lparr>assembler := assembler s @ [Label l] @ limitcode
                     @ [Instruction CMP (Register2 c t)]\<rparr>"
proof -
  from assms(2) obtain c where reg: "reg = Some c"
    by (cases reg) (simp_all add: CompareExpression_def)
  from assms(2) reg obtain t where ff: "FindFreeRegister (registers s) = Some t"
    by (cases "FindFreeRegister (registers s)")
      (simp_all add: CompareExpression_def Let_def AddLabel_def)
  from assms(2) reg ff obtain sC
    where tr: "TokensToRegister fx (s\<lparr>assembler := assembler s @ [Label l]\<rparr>) e t = Ok sC"
    by (cases "TokensToRegister fx (s\<lparr>assembler := assembler s @ [Label l]\<rparr>) e t")
      (simp_all add: CompareExpression_def Let_def AddLabel_def)
  from assms(2) reg ff tr have tmp: "tmp = Some t"
    and s1: "s1 = sC\<lparr>assembler := CompareRegisterRegister c t (assembler sC)\<rparr>"
    by (simp_all add: CompareExpression_def Let_def AddLabel_def)
  from tr assms(1) obtain limitcode where
    lc: "assembler sC = assembler (s\<lparr>assembler := assembler s @ [Label l]\<rparr>) @ limitcode"
    unfolding forExternalsFrame_def by blast
  have "CompareRegisterRegister c t (assembler sC)
      = assembler s @ [Label l] @ limitcode @ [Instruction CMP (Register2 c t)]"
    using lc by (simp add: CompareRegisterRegister_def doRegister2_def CMP_def MOV_def)
  with reg tmp ff tr lc s1 show ?thesis by simp
qed


lemma ForStart_shape:
  assumes frame: "forExternalsFrame fx" and ok: "ForStart fx tokens s = Ok s1"
  shows "\<exists>c t sA sB sC startcode limitcode.
      rangeStart fx (drop 1 tokens) (Index (drop 1 tokens) RangeKind)
        ((Expect fx s Keyword)\<lparr>scopes := Push (scopes (Expect fx s Keyword))\<rparr>) = Ok (Some c, sA)
    \<and> assembler sA = assembler s @ startcode
    \<and> assembler sB = assembler s @ startcode @ [Label (''for_'' @ decimal (counter (forLoop s) + 1))]
    \<and> TokensToRegister fx sB
          (drop (nat (Index (drop 1 tokens) RangeKind) + 1) (drop 1 tokens)) t = Ok sC
    \<and> assembler sC = assembler sB @ limitcode
    \<and> assembler s1 = assembler s @ startcode
          @ [Label (''for_'' @ decimal (counter (forLoop s) + 1))] @ limitcode
          @ [Instruction CMP (Register2 c t),
             Instruction JE (LabelOperand (''for_'' @ decimal (counter (forLoop s) + 1) @ ''_end''))]
    \<and> stack (forLoop s1) = stack (forLoop s) @
          [\<lparr>labelStart = ''for_'' @ decimal (counter (forLoop s) + 1),
            labelEnd = ''for_'' @ decimal (counter (forLoop s) + 1) @ ''_end'',
            loopCounter = Some c, limit = Some t\<rparr>]"
proof -
  let ?e = "drop 1 tokens"
  let ?p = "Index ?e RangeKind"
  let ?s2 = "(Expect fx s Keyword)\<lparr>scopes := Push (scopes (Expect fx s Keyword))\<rparr>"
  from ok have ne: "tokens \<noteq> []" and range: "?p \<noteq> -1"
    by (auto simp add: ForStart_def Let_def split: if_splits)
  from ok ne range obtain register sA where rs: "rangeStart fx ?e ?p ?s2 = Ok (register, sA)"
    by (cases "rangeStart fx ?e ?p ?s2") (auto simp add: ForStart_def Let_def)
  let ?s4 = "sA\<lparr>forLoop := (forLoop sA)\<lparr>counter := counter (forLoop sA) + 1\<rparr>\<rparr>"
  let ?s5 = "?s4\<lparr>tokenCursor := tokenCursor ?s4 + 1\<rparr>"
  let ?L = "''for_'' @ decimal (counter (forLoop ?s4))"
  let ?E = "''for_'' @ decimal (counter (forLoop ?s4)) @ ''_end''"
  let ?u = "drop (nat ?p + 1) ?e"
  from ok ne range rs have lim: "length ?u \<noteq> 0"
    by (auto simp add: ForStart_def Let_def split: if_splits)
  from ok ne range rs lim obtain temporary s6
    where ce: "CompareExpression fx ?s5 register ?u ?L = Ok (temporary, s6)"
    by (cases "CompareExpression fx ?s5 register ?u ?L") (auto simp add: ForStart_def Let_def)
  from ok ne range rs lim ce
  have s1: "s1 = s6\<lparr>assembler := JumpIfEqual ?E (assembler s6),
                    forLoop := (forLoop s6)\<lparr>stack := stack (forLoop s6) @
                       [\<lparr>labelStart = ?L, labelEnd = ?E, loopCounter = register,
                         limit = temporary\<rparr>]\<rparr>\<rparr>"
    by (simp add: ForStart_def Let_def)
  from frame have ex: "assembler ?s2 = assembler s" "forLoop ?s2 = forLoop s"
    unfolding forExternalsFrame_def by simp_all
  from rangeStart_appends [OF frame rs] ex obtain startcode
    where sc: "assembler sA = assembler s @ startcode" and fl: "forLoop sA = forLoop s"
    by auto
  from CompareExpression_shape [OF frame ce] obtain c t sC limitcode
    where reg: "register = Some c" and tmp: "temporary = Some t"
      and tr: "TokensToRegister fx (?s5\<lparr>assembler := assembler ?s5 @ [Label ?L]\<rparr>) ?u t = Ok sC"
      and lc: "assembler sC = assembler ?s5 @ [Label ?L] @ limitcode"
      and s6: "s6 = sC\<lparr>assembler := assembler ?s5 @ [Label ?L] @ limitcode
                         @ [Instruction CMP (Register2 c t)]\<rparr>"
    by blast
  from tr frame have flC: "forLoop sC = forLoop ?s5"
    unfolding forExternalsFrame_def by fastforce
  let ?sB = "?s5\<lparr>assembler := assembler ?s5 @ [Label ?L]\<rparr>"
  have L: "?L = ''for_'' @ decimal (counter (forLoop s) + 1)"
    using fl by simp
  have 1: "rangeStart fx ?e ?p ?s2 = Ok (Some c, sA)" using rs reg by simp
  have 2: "assembler ?sB = assembler s @ startcode @ [Label (''for_'' @ decimal (counter (forLoop s) + 1))]"
    using sc fl by simp
  have 3: "assembler sC = assembler ?sB @ limitcode" using lc by simp
  have 4: "assembler s1 = assembler s @ startcode
          @ [Label (''for_'' @ decimal (counter (forLoop s) + 1))] @ limitcode
          @ [Instruction CMP (Register2 c t),
             Instruction JE (LabelOperand (''for_'' @ decimal (counter (forLoop s) + 1) @ ''_end''))]"
    using s1 s6 sc fl by (simp add: JumpIfEqual_def doLabel_def)
  have 5: "stack (forLoop s1) = stack (forLoop s) @
          [\<lparr>labelStart = ''for_'' @ decimal (counter (forLoop s) + 1),
            labelEnd = ''for_'' @ decimal (counter (forLoop s) + 1) @ ''_end'',
            loopCounter = Some c, limit = Some t\<rparr>]"
    using s1 s6 flC fl reg tmp by simp
  from 1 sc 2 tr 3 4 5 show ?thesis by blast
qed

lemma ForEnd_shape:
  assumes frame: "forExternalsFrame fx" and ok: "ForEnd fx s2 = Ok s3"
    and top: "stack (forLoop s2) = st @ [\<lparr>labelStart = L, labelEnd = E,
                 loopCounter = Some c, limit = Some t\<rparr>]"
  shows "assembler s3 = assembler s2 @
           [Instruction INC (Register1 c), Instruction JMP (LabelOperand L), Label E]
       \<and> users (registers s3) c = None \<and> users (registers s3) t = None
       \<and> stack (forLoop s3) = st"
proof -
  from ok obtain sP where ps: "PopScope fx s2 = Ok sP"
    by (cases "PopScope fx s2") (simp_all add: ForEnd_def)
  with frame have a: "assembler sP = assembler s2" and f: "forLoop sP = forLoop s2"
    unfolding forExternalsFrame_def by blast+
  from ok ps f top show ?thesis
    by (auto simp add: ForEnd_def Let_def a Free_def IncreaseRegister_def Jump_def AddLabel_def
        doRegister1_def doLabel_def)
qed

lemma labelPosition_last:
  "Label l \<notin> set xs \<Longrightarrow> labelPosition (xs @ [Label l]) l = Some (length xs)"
  by (induction xs) auto

lemma compare_and_exit:
  assumes code: "code = pre @ [Instruction CMP (Register2 c t), Instruction JE (LabelOperand E)]
                   @ body @ [i1, i2, Label E]"
    and fresh: "Label E \<notin> set (butlast code)"
    and at: "pc m = length pre" and eq: "registerValue m c = registerValue m t"
  shows "run 2 code m = Some (m\<lparr>equalFlag := True, pc := length pre + 2 + length body + 2\<rparr>)"
proof -
  have cmp: "code ! length pre = Instruction CMP (Register2 c t)"
    and je: "code ! Suc (length pre) = Instruction JE (LabelOperand E)"
    and len: "length pre + 1 < length code"
    unfolding code by (simp_all add: nth_append)
  have "butlast code = pre @ [Instruction CMP (Register2 c t), Instruction JE (LabelOperand E)]
                   @ body @ [i1, i2]"
    unfolding code by (simp add: butlast_append)
  with fresh have "labelPosition code E = Some (length (butlast code))"
    using labelPosition_last [of E "butlast code"] code by simp
  then have pos: "labelPosition code E = Some (length pre + 2 + length body + 2)"
    unfolding code by simp
  have s1: "step code m = Some (m\<lparr>equalFlag := True, pc := length pre + 1\<rparr>)"
    using cmp len at eq by (simp add: step_def)
  have s2: "step code (m\<lparr>equalFlag := True, pc := length pre + 1\<rparr>)
      = Some (m\<lparr>equalFlag := True, pc := length pre + 2 + length body + 2\<rparr>)"
    using je len pos by (simp add: step_def jump_def JE_def CMP_def MOV_def)
  have "run 2 code m = run (Suc (Suc 0)) code m" by (simp add: numeral_2_eq_2)
  then show ?thesis using s1 s2 by simp
qed


lemma exampleTokensToRegister_frame:
  "exampleTokensToRegister s ts r = Ok s1
     \<Longrightarrow> (\<exists>c. assembler s1 = assembler s @ c) \<and> forLoop s1 = forLoop s"
  by (auto simp add: exampleTokensToRegister_def MoveRegisterNumber_def doRegisterNumber_def
      split: list.splits if_splits)

lemma forExternalsFrame_example: "forExternalsFrame exampleForExternals"
  unfolding forExternalsFrame_def exampleForExternals_def
  by (auto simp add: exampleAssignVariable_def split: list.splits option.splits result.splits
      dest: exampleTokensToRegister_frame)



end
